theory Spec2Isabelle
  imports Main "HOL-Library.Sublist"
begin

text \<open>
  A model of the movie provider \<open>heyzo\<close> (\<open>NormalizeID\<close>, \<open>ParseIDFromURL\<close>,
  \<open>GetMovieInfoByURL\<close>) and of the actor provider \<open>xslist\<close> (\<open>GetActorInfoByURL\<close>,
  \<open>SearchActor\<close>, \<open>parseDebutDate\<close>): the string and pattern functions they call, the
  callbacks they register on the collector, and the order in which the collector runs them.
\<close>

section \<open>Go strings\<close>

text \<open>
  A Go \<open>string\<close> is a sequence of bytes; it is modelled as a \<open>string\<close> (a list of 8-bit
  \<open>char\<close>s). Text outside ASCII appears as its UTF-8 bytes.
\<close>

definition byte :: "char \<Rightarrow> nat" where
  "byte c = of_char c"

subsection \<open>White space (unicode.IsSpace) on UTF-8 bytes\<close>

text \<open>
  \<open>unicode.IsSpace\<close> holds of U+0009..U+000D, U+0020, U+0085, U+00A0, U+1680,
  U+2000..U+200A, U+2028, U+2029, U+202F, U+205F and U+3000. \<open>space_encodings\<close> lists their
  UTF-8 encodings. No encoding is a prefix of another, every one starts with a leading byte
  and Go decodes an invalid byte as a rune of width one that is not a space, so a white-space
  rune starts at a byte position exactly when one of these byte sequences starts there.
  Decoding the last rune, Go scans back to the nearest leading byte, which in each of these
  sequences is its first byte: a white-space rune ends the string exactly when one of these
  sequences does.
\<close>

definition space_encodings :: "string list" where
  "space_encodings =
     [[CHR 0x09], [CHR 0x0A], [CHR 0x0B], [CHR 0x0C], [CHR 0x0D], [CHR 0x20],
      [CHR 0xC2, CHR 0x85], [CHR 0xC2, CHR 0xA0],
      [CHR 0xE1, CHR 0x9A, CHR 0x80],
      [CHR 0xE2, CHR 0x80, CHR 0x80], [CHR 0xE2, CHR 0x80, CHR 0x81],
      [CHR 0xE2, CHR 0x80, CHR 0x82], [CHR 0xE2, CHR 0x80, CHR 0x83],
      [CHR 0xE2, CHR 0x80, CHR 0x84], [CHR 0xE2, CHR 0x80, CHR 0x85],
      [CHR 0xE2, CHR 0x80, CHR 0x86], [CHR 0xE2, CHR 0x80, CHR 0x87],
      [CHR 0xE2, CHR 0x80, CHR 0x88], [CHR 0xE2, CHR 0x80, CHR 0x89],
      [CHR 0xE2, CHR 0x80, CHR 0x8A],
      [CHR 0xE2, CHR 0x80, CHR 0xA8], [CHR 0xE2, CHR 0x80, CHR 0xA9],
      [CHR 0xE2, CHR 0x80, CHR 0xAF], [CHR 0xE2, CHR 0x81, CHR 0x9F],
      [CHR 0xE3, CHR 0x80, CHR 0x80]]"

text \<open>The width in bytes of the white-space rune at the start (at the end) of \<open>s\<close>; 0 if none.\<close>

definition space_prefix_width :: "string \<Rightarrow> nat" where
  "space_prefix_width s =
     (case find (\<lambda>w. prefix w s) space_encodings of None \<Rightarrow> 0 | Some w \<Rightarrow> length w)"

definition space_suffix_width :: "string \<Rightarrow> nat" where
  "space_suffix_width s =
     (case find (\<lambda>w. suffix w s) space_encodings of None \<Rightarrow> 0 | Some w \<Rightarrow> length w)"

subsection \<open>Package strings\<close>

text \<open>\<open>strings.Contains(s, substr)\<close>.\<close>

definition Contains :: "string \<Rightarrow> string \<Rightarrow> bool" where
  "Contains s substr = sublist substr s"

text \<open>\<open>strings.TrimSpace(s)\<close>: white-space runes removed from both ends.\<close>

function TrimLeftSpace :: "string \<Rightarrow> string" where
  "TrimLeftSpace s =
     (if space_prefix_width s = 0 then s else TrimLeftSpace (drop (space_prefix_width s) s))"
  by pat_completeness auto
termination
proof (relation "measure length")
  fix s :: string
  assume "space_prefix_width s \<noteq> 0"
  then have "s \<noteq> []"
    by (auto simp: space_prefix_width_def space_encodings_def)
  with \<open>space_prefix_width s \<noteq> 0\<close>
  show "(drop (space_prefix_width s) s, s) \<in> measure length" by simp
qed simp

function TrimRightSpace :: "string \<Rightarrow> string" where
  "TrimRightSpace s =
     (if space_suffix_width s = 0 then s
      else TrimRightSpace (take (length s - space_suffix_width s) s))"
  by pat_completeness auto
termination
proof (relation "measure length")
  fix s :: string
  assume "space_suffix_width s \<noteq> 0"
  then have "s \<noteq> []"
    by (auto simp: space_suffix_width_def space_encodings_def)
  with \<open>space_suffix_width s \<noteq> 0\<close>
  show "(take (length s - space_suffix_width s) s, s) \<in> measure length" by simp
qed simp

definition TrimSpace :: "string \<Rightarrow> string" where
  "TrimSpace s = TrimRightSpace (TrimLeftSpace s)"

text \<open>
  \<open>strings.Fields(s)[0]\<close>: the first maximal run of runes that are not white space. When \<open>s\<close>
  holds white space only, \<open>Fields\<close> returns an empty slice and indexing it panics: \<open>None\<close>.
\<close>

fun field_run :: "string \<Rightarrow> string" where
  "field_run [] = []"
| "field_run (c # cs) = (if space_prefix_width (c # cs) = 0 then c # field_run cs else [])"

definition Fields_first :: "string \<Rightarrow> string option" where
  "Fields_first s = (let r = TrimLeftSpace s in if r = [] then None else Some (field_run r))"

text \<open>\<open>strings.TrimRight(s, cutset)\<close> and \<open>strings.Trim(s, cutset)\<close> for an ASCII cutset.\<close>

definition TrimRight :: "string \<Rightarrow> string \<Rightarrow> string" where
  "TrimRight s cutset = rev (dropWhile (\<lambda>c. c \<in> set cutset) (rev s))"

definition Trim :: "string \<Rightarrow> string \<Rightarrow> string" where
  "Trim s cutset = TrimRight (dropWhile (\<lambda>c. c \<in> set cutset) s) cutset"

text \<open>\<open>strings.TrimSuffix(s, suffix)\<close>.\<close>

definition TrimSuffix :: "string \<Rightarrow> string \<Rightarrow> string" where
  "TrimSuffix s suf = (if suffix suf s then take (length s - length suf) s else s)"

text \<open>
  \<open>strings.ReplaceAll(s, old, new)\<close> for a non-empty \<open>old\<close> (the source passes the constants
  \<open>" "\<close> and \<open>"n/a"\<close>): the occurrences are replaced from left to right, without overlap.
\<close>

function ReplaceAll :: "string \<Rightarrow> string \<Rightarrow> string \<Rightarrow> string" where
  "ReplaceAll [] old new = []"
| "ReplaceAll (c # cs) old new =
     (if old \<noteq> [] \<and> prefix old (c # cs)
      then new @ ReplaceAll (drop (length old) (c # cs)) old new
      else c # ReplaceAll cs old new)"
  by pat_completeness auto
termination
  by (relation "measure (\<lambda>(s, old, new). length s)") auto

text \<open>
  \<open>strings.SplitN(s, sep, 2)\<close> for a non-empty \<open>sep\<close>: \<open>[s]\<close> when \<open>sep\<close> does not occur in
  \<open>s\<close>, otherwise the text before the first occurrence and the text after it.
\<close>

fun split_at :: "string \<Rightarrow> string \<Rightarrow> (string \<times> string) option" where
  "split_at [] sep = None"
| "split_at (c # cs) sep =
     (if prefix sep (c # cs) then Some ([], drop (length sep) (c # cs))
      else (case split_at cs sep of None \<Rightarrow> None | Some (a, b) \<Rightarrow> Some (c # a, b)))"

definition SplitN2 :: "string \<Rightarrow> string \<Rightarrow> string list" where
  "SplitN2 s sep = (case split_at s sep of None \<Rightarrow> [s] | Some (a, b) \<Rightarrow> [a, b])"

section \<open>Package regexp\<close>

text \<open>
  The patterns of the source use literals, the classes \<open>\d\<close>, \<open>\s\<close>, \<open>\w\<close>, \<open>.\<close> and
  \<open>[\s\d]\<close> under \<open>*\<close>, \<open>+\<close> and \<open>+?\<close>, an optional case-insensitive literal, capture groups,
  \<open>^\<close> and \<open>$\<close>. The classes other than \<open>.\<close> hold ASCII characters only, every literal
  that follows a \<open>.\<close> is ASCII and every pattern starts with an ASCII literal or an anchor, so
  matching bytes agrees with matching runes.
\<close>

definition digit :: "char \<Rightarrow> bool" where  \<comment> \<open>\<open>\d\<close> is \<open>[0-9]\<close>\<close>
  "digit c = (48 \<le> byte c \<and> byte c \<le> 57)"

definition space :: "char \<Rightarrow> bool" where  \<comment> \<open>\<open>\s\<close> is \<open>[\t\n\f\r ]\<close>\<close>
  "space c = (byte c \<in> {9, 10, 12, 13, 32})"

definition word :: "char \<Rightarrow> bool" where  \<comment> \<open>\<open>\w\<close> is \<open>[0-9A-Za-z_]\<close>\<close>
  "word c = (digit c \<or> (65 \<le> byte c \<and> byte c \<le> 90) \<or> (97 \<le> byte c \<and> byte c \<le> 122)
             \<or> byte c = 95)"

definition anychar :: "char \<Rightarrow> bool" where  \<comment> \<open>\<open>.\<close> is any character but the newline\<close>
  "anychar c = (byte c \<noteq> 10)"

definition space_or_digit :: "char \<Rightarrow> bool" where  \<comment> \<open>\<open>[\s\d]\<close>\<close>
  "space_or_digit c = (space c \<or> digit c)"

text \<open>
  Case folding for \<open>(?i)\<close>. The letters of \<open>heyzo\<close> fold only with their ASCII capitals (the
  letters with a fold outside ASCII are \<open>k\<close> and \<open>s\<close>).
\<close>

definition to_lower :: "char \<Rightarrow> char" where
  "to_lower c = (if 65 \<le> byte c \<and> byte c \<le> 90 then char_of (byte c + 32) else c)"

datatype re =
    Eps
  | Lit string                    \<comment> \<open>a literal\<close>
  | LitFold string                \<comment> \<open>a literal under \<open>(?i)\<close>\<close>
  | Opt re                        \<comment> \<open>\<open>r?\<close>, preferring one occurrence\<close>
  | Star "char \<Rightarrow> bool"           \<comment> \<open>\<open>c*\<close>, preferring more\<close>
  | Plus "char \<Rightarrow> bool"           \<comment> \<open>\<open>c+\<close>, preferring more\<close>
  | PlusLazy "char \<Rightarrow> bool"       \<comment> \<open>\<open>c+?\<close>, preferring fewer\<close>
  | Cap re                        \<comment> \<open>a capture group\<close>
  | Seq re re
  | Bot                           \<comment> \<open>\<open>^\<close>\<close>
  | Eot                           \<comment> \<open>\<open>$\<close>, the end of the text (no \<open>m\<close> flag)\<close>

primrec cat :: "re list \<Rightarrow> re" where
  "cat [] = Eps"
| "cat (r # rs) = Seq r (cat rs)"

text \<open>The length of the run of characters of class \<open>p\<close> in \<open>t\<close> from position \<open>i\<close>.\<close>

definition run :: "(char \<Rightarrow> bool) \<Rightarrow> string \<Rightarrow> nat \<Rightarrow> nat" where
  "run p t i = length (takeWhile p (drop i t))"

text \<open>
  \<open>ms r t i\<close>: the matches of \<open>r\<close> in the text \<open>t\<close> that start at position \<open>i\<close>, each with
  its captures (in the order of the opening parentheses) and its end position, in the order
  in which a backtracking search finds them. Go returns the first one (leftmost-first).
\<close>

fun ms :: "re \<Rightarrow> string \<Rightarrow> nat \<Rightarrow> (string list \<times> nat) list" where
  "ms Eps t i = [([], i)]"
| "ms (Lit l) t i = (if take (length l) (drop i t) = l then [([], i + length l)] else [])"
| "ms (LitFold l) t i =
     (if map to_lower (take (length l) (drop i t)) = map to_lower l
      then [([], i + length l)] else [])"
| "ms (Opt r) t i = ms r t i @ [([], i)]"
| "ms (Star p) t i = map (\<lambda>k. ([], i + k)) (rev [0..<Suc (run p t i)])"
| "ms (Plus p) t i = map (\<lambda>k. ([], i + k)) (rev [1..<Suc (run p t i)])"
| "ms (PlusLazy p) t i = map (\<lambda>k. ([], i + k)) [1..<Suc (run p t i)]"
| "ms (Cap r) t i = map (\<lambda>(c, j). (take (j - i) (drop i t) # c, j)) (ms r t i)"
| "ms (Seq a b) t i =
     concat (map (\<lambda>(c, j). map (\<lambda>(c', j'). (c @ c', j')) (ms b t j)) (ms a t i))"
| "ms Bot t i = (if i = 0 then [([], i)] else [])"
| "ms Eot t i = (if i = length t then [([], i)] else [])"

text \<open>The first match starting at one of the positions \<open>is\<close>, tried in order.\<close>

fun find_from :: "re \<Rightarrow> string \<Rightarrow> nat list \<Rightarrow> (nat \<times> string list \<times> nat) option" where
  "find_from r t [] = None"
| "find_from r t (i # is) =
     (case ms r t i of [] \<Rightarrow> find_from r t is | (c, j) # _ \<Rightarrow> Some (i, c, j))"

text \<open>
  \<open>regexp.FindStringSubmatch\<close>: the text of the leftmost match followed by the texts of its
  capture groups; the empty (nil) slice when there is no match.
\<close>

definition FindStringSubmatch :: "re \<Rightarrow> string \<Rightarrow> string list" where
  "FindStringSubmatch r t =
     (case find_from r t [0..<Suc (length t)] of
        None \<Rightarrow> []
      | Some (i, c, j) \<Rightarrow> take (j - i) (drop i t) # c)"

text \<open>
  \<open>regexp.FindAllStringSubmatch(t, -1)\<close>: the successive matches, each search starting where
  the previous match ended (one position further after an empty match).
\<close>

function find_all :: "re \<Rightarrow> string \<Rightarrow> nat \<Rightarrow> string list list" where
  "find_all r t pos =
     (case find_from r t [pos..<Suc (length t)] of
        None \<Rightarrow> []
      | Some (i, c, j) \<Rightarrow> (take (j - i) (drop i t) # c) # find_all r t (max j (Suc i)))"
  by pat_completeness auto
termination
proof (relation "measure (\<lambda>(r, t, pos). Suc (length t) - pos)")
  fix r t pos x i y c j
  assume a: "find_from r t [pos..<Suc (length t)] = Some x" "(i, y) = x" "(c, j) = y"
  have "find_from r t ps = Some (i, c, j) \<Longrightarrow> i \<in> set ps" for ps
    by (induction ps) (auto split: list.splits)
  from this [of "[pos..<Suc (length t)]"] a
  have "i \<in> set [pos..<Suc (length t)]" by simp
  then show "((r, t, max j (Suc i)), (r, t, pos)) \<in> measure (\<lambda>(r, t, pos). Suc (length t) - pos)"
    by auto
qed simp

definition FindAllStringSubmatch :: "re \<Rightarrow> string \<Rightarrow> string list list" where
  "FindAllStringSubmatch r t = find_all r t 0"

section \<open>Provider heyzo: the identifier normalizer\<close>

text \<open>The pattern \<^verbatim>\<open>^(?i)(?:heyzo-)?(\d+)$\<close>.\<close>

definition id_re :: re where
  "id_re = cat [Bot, Opt (LitFold ''heyzo-''), Cap (Plus digit), Eot]"

definition NormalizeID :: "string \<Rightarrow> string" where
  "NormalizeID ident =
     (let ss = FindStringSubmatch id_re ident in if length ss = 2 then ss ! 1 else [])"

section \<open>Collaborators\<close>

text \<open>
  The source calls the Go standard library (\<open>net/url\<close>, \<open>path\<close>, \<open>encoding/json\<close>,
  \<open>time\<close>), the packages \<open>common/parser\<close> and \<open>common/m3u8\<close> and the colly collector, none
  of which is part of the files under study. What the source needs of them is a parameter of
  the model: the record \<open>lib\<close> for the pure functions, a document source for the fetches.
  \<open>'t\<close> stands for \<open>time.Time\<close> and \<open>'f\<close> for \<open>float64\<close>; \<open>0\<close> is the zero value of either.
\<close>

type_synonym error = string

record URL =
  url_Path :: string      \<comment> \<open>the field \<open>Path\<close>\<close>
  url_String :: string    \<comment> \<open>the method \<open>String()\<close>\<close>

text \<open>The struct that the ld+json script is decoded into.\<close>

record ld_data =
  ld_name :: string
  ld_image :: string
  ld_description :: string
  ld_startDate :: string
  ld_duration :: string
  ld_actor :: string
  ld_provider :: string
  ld_ratingValue :: string

record ('t, 'f) lib =
  url_Parse :: "string \<Rightarrow> error + URL"          \<comment> \<open>\<open>url.Parse\<close>\<close>
  url_QueryEscape :: "string \<Rightarrow> string"           \<comment> \<open>\<open>url.QueryEscape\<close>\<close>
  path_Dir :: "string \<Rightarrow> string"                  \<comment> \<open>\<open>path.Dir\<close>\<close>
  json_ld :: "string \<Rightarrow> ld_data option"           \<comment> \<open>\<open>json.Unmarshal\<close> into \<open>ld_data\<close>; \<open>None\<close> is an error\<close>
  json_full :: "string \<Rightarrow> string option"          \<comment> \<open>\<open>json.Unmarshal\<close> into the struct with field \<open>full\<close>\<close>
  ParseDate :: "string \<Rightarrow> 't"                     \<comment> \<open>\<open>parser.ParseDate\<close>\<close>
  ParseRuntime :: "string \<Rightarrow> int"                 \<comment> \<open>\<open>parser.ParseRuntime\<close>\<close>
  ParseScore :: "string \<Rightarrow> 'f"                    \<comment> \<open>\<open>parser.ParseScore\<close>\<close>
  ParseInt :: "string \<Rightarrow> int"                     \<comment> \<open>\<open>parser.ParseInt\<close>\<close>
  time_Date :: "int \<Rightarrow> int \<Rightarrow> 't"                \<comment> \<open>\<open>time.Date(year, time.Month(month), 1, 0, 0, 0, 0, time.UTC)\<close>\<close>
  ParseMediaURI :: "string \<Rightarrow> error + string"     \<comment> \<open>\<open>m3u8.ParseMediaURI\<close>: the error or the URI\<close>

text \<open>\<open>path.Base\<close> and \<open>path.Ext\<close>.\<close>

definition path_Base :: "string \<Rightarrow> string" where
  "path_Base p =
     (if p = [] then ''.''
      else let p1 = rev (dropWhile (\<lambda>c. c = CHR ''/'') (rev p));
               p2 = rev (takeWhile (\<lambda>c. c \<noteq> CHR ''/'') (rev p1))
           in if p2 = [] then ''/'' else p2)"

definition path_Ext :: "string \<Rightarrow> string" where
  "path_Ext p =
     (let e = rev (takeWhile (\<lambda>c. c \<noteq> CHR ''/'') (rev p))
      in if CHR ''.'' \<in> set e then CHR ''.'' # rev (takeWhile (\<lambda>c. c \<noteq> CHR ''.'') (rev e))
         else [])"

text \<open>
  A call either returns or panics. Nothing in the source or in colly recovers a panic, so it
  reaches the caller.
\<close>

datatype 'a outcome = Panic | Return 'a

text \<open>
  colly runs the registered \<open>OnXML\<close> callbacks in the order of their registration, each one on
  every node its selector matches, in document order. \<open>fold\<close> is that inner loop;
  \<open>fold_panic\<close> is the loop for a callback that can panic.
\<close>

fun fold_panic :: "('a \<Rightarrow> 's \<Rightarrow> 's option) \<Rightarrow> 'a list \<Rightarrow> 's \<Rightarrow> 's option" where
  "fold_panic f [] s = Some s"
| "fold_panic f (x # xs) s =
     (case f x s of None \<Rightarrow> None | Some s' \<Rightarrow> fold_panic f xs s')"

section \<open>Provider heyzo: the movie record\<close>

text \<open>The fields of \<open>model.MovieInfo\<close> that the source names.\<close>

record ('t, 'f) MovieInfo =
  ID :: string
  Number :: string
  Title :: string
  Summary :: string
  Provider :: string
  Homepage :: string
  Maker :: string
  Series :: string
  Actors :: "string list"
  Tags :: "string list"
  CoverURL :: string
  ThumbURL :: string
  PreviewVideoURL :: string
  PreviewVideoHLSURL :: string
  PreviewImages :: "string list"
  ReleaseDate :: 't
  Runtime :: int
  Score :: 'f

text \<open>
  What the selectors of \<open>GetMovieInfoByURL\<close> yield on a fetched document: for each selector
  the matched nodes in document order, each node as the values the callback reads from it.
\<close>

record info_row =
  td1 :: string                     \<comment> \<open>\<open>e.ChildText(".//td[1]")\<close>\<close>
  td2 :: string                     \<comment> \<open>\<open>e.ChildText(".//td[2]")\<close>\<close>
  td2_a_span :: "string list"       \<comment> \<open>\<open>e.ChildTexts(".//td[2]/a/span")\<close>\<close>
  span_ratingValue :: string        \<comment> \<open>\<open>e.ChildText(".//span[@itemprop=\"ratingValue\"]")\<close>\<close>

record movie_page =
  AbsoluteURL :: "string \<Rightarrow> string"       \<comment> \<open>\<open>e.Request.AbsoluteURL\<close>\<close>
  ld_json_scripts :: "string list"           \<comment> \<open>text of \<open>//script[@type="application/ld+json"]\<close>\<close>
  movie_h1 :: "string list"                  \<comment> \<open>text of \<open>//*[@id="movie"]/h1\<close>\<close>
  memo_p :: "string list"                    \<comment> \<open>text of \<open>//p[@class="memo"]\<close>\<close>
  og_image_content :: "string list"          \<comment> \<open>\<open>content\<close> of \<open>//meta[@property="og:image"]\<close>\<close>
  movieInfo_rows :: "info_row list"          \<comment> \<open>\<open>//table[@class="movieInfo"]/tbody/tr\<close>\<close>
  tag_keyword_lists :: "string list list"    \<comment> \<open>\<open>e.ChildTexts(".//li/a")\<close> of \<open>//ul[@class="tag-keyword-list"]\<close>\<close>
  javascript_scripts :: "string list"        \<comment> \<open>text of \<open>//script[@type="text/javascript"]\<close>\<close>
  playerContainer_scripts :: "string list"   \<comment> \<open>text of \<open>//*[@id="playerContainer"]/script\<close>\<close>
  sample_images_scripts :: "string list"     \<comment> \<open>text of \<open>//div[@class="sample-images yoxview"]/script\<close>\<close>

text \<open>The response that the nested collector hands to \<open>OnResponse\<close>.\<close>

record response =
  resp_URL :: string      \<comment> \<open>\<open>r.Request.URL.String()\<close>\<close>
  resp_Body :: string     \<comment> \<open>\<open>r.Body\<close>\<close>

text \<open>
  The document source: \<open>c.Visit\<close> of the primary collector returns an error (no callback has
  run) or runs the callbacks on the document; \<open>d.Visit\<close> of the nested collector calls
  \<open>OnResponse\<close> when a response arrives (\<open>Some\<close>) and nothing otherwise (its error is
  dropped by the source).
\<close>

record movie_source =
  visit_page :: "string \<Rightarrow> error + movie_page"
  visit_manifest :: "string \<Rightarrow> response option"

text \<open>
  The constant \<open>Name\<close>. The method \<open>hzo.Name()\<close> of the embedded scraper returns the name
  that \<open>New\<close> passes to \<open>scraper.NewDefaultScraper\<close>, which is this constant.
\<close>

definition Name :: string where
  "Name = ''HEYZO''"

definition sampleURL :: "string \<Rightarrow> string \<Rightarrow> string \<Rightarrow> string" where
  \<comment> \<open>\<open>fmt.Sprintf("https://www.heyzo.com/contents/%s/%s/%s", a, b, c)\<close>\<close>
  "sampleURL a b c = ''https://www.heyzo.com/contents/'' @ a @ ''/'' @ b @ ''/'' @ c"

definition ParseIDFromURL :: "('t, 'f) lib \<Rightarrow> string \<Rightarrow> error + string" where
  "ParseIDFromURL L rawURL =
     (case url_Parse L rawURL of
        Inl err \<Rightarrow> Inl err
      | Inr homepage \<Rightarrow> Inr (path_Base (path_Dir L (url_Path homepage))))"

subsection \<open>The labels and patterns\<close>

definition label_release :: string where  \<comment> \<open>U+516C U+958B U+65E5\<close>
  "label_release = [CHR 0xE5, CHR 0x85, CHR 0xAC, CHR 0xE9, CHR 0x96, CHR 0x8B,
                    CHR 0xE6, CHR 0x97, CHR 0xA5]"

definition label_cast :: string where  \<comment> \<open>U+51FA U+6F14\<close>
  "label_cast = [CHR 0xE5, CHR 0x87, CHR 0xBA, CHR 0xE6, CHR 0xBC, CHR 0x94]"

definition label_series :: string where  \<comment> \<open>U+30B7 U+30EA U+30FC U+30BA\<close>
  "label_series = [CHR 0xE3, CHR 0x82, CHR 0xB7, CHR 0xE3, CHR 0x83, CHR 0xAA,
                   CHR 0xE3, CHR 0x83, CHR 0xBC, CHR 0xE3, CHR 0x82, CHR 0xBA]"

definition label_rating :: string where  \<comment> \<open>U+8A55 U+4FA1\<close>
  "label_rating = [CHR 0xE8, CHR 0xA9, CHR 0x95, CHR 0xE4, CHR 0xBE, CHR 0xA1]"

definition dquote :: string where
  "dquote = [CHR 0x22]"

definition squote :: string where
  "squote = [CHR 0x27]"

definition emvideo_re :: re where  \<comment> \<open>\<^verbatim>\<open>emvideo = "(.+?)";\<close>\<close>
  "emvideo_re = cat [Lit (''emvideo = '' @ dquote), Cap (PlusLazy anychar), Lit (dquote @ '';'')]"

definition runtime_re :: re where  \<comment> \<open>\<^verbatim>\<open>o = (\{.+?});\<close>\<close>
  "runtime_re = cat [Lit ''o = '', Cap (cat [Lit ''{'', PlusLazy anychar, Lit ''}'']), Lit '';'']"

definition movieId_re :: re where  \<comment> \<open>\<^verbatim>\<open>movieId\s*=\s*'(\d+?)';\<close>\<close>
  "movieId_re = cat [Lit ''movieId'', Star space, Lit ''='', Star space, Lit squote,
                     Cap (PlusLazy digit), Lit (squote @ '';'')]"

definition siteID_re :: re where  \<comment> \<open>\<^verbatim>\<open>siteID\s*=\s*'(\d+?)';\<close>\<close>
  "siteID_re = cat [Lit ''siteID'', Star space, Lit ''='', Star space, Lit squote,
                    Cap (PlusLazy digit), Lit (squote @ '';'')]"

definition stream_re :: re where
  \<comment> \<open>\<^verbatim>\<open>stream\s*=\s*'(.+?)'\+siteID\+'(.+?)'\+movieId\+'(.+?)';\<close>\<close>
  "stream_re = cat [Lit ''stream'', Star space, Lit ''='', Star space, Lit squote,
                    Cap (PlusLazy anychar), Lit (squote @ ''+siteID+'' @ squote),
                    Cap (PlusLazy anychar), Lit (squote @ ''+movieId+'' @ squote),
                    Cap (PlusLazy anychar), Lit (squote @ '';'')]"

definition sample_re :: re where  \<comment> \<open>\<^verbatim>\<open>/sample/(\d+)/(\d+)/ts\.(.+?)\.m3u8\<close>\<close>
  "sample_re = cat [Lit ''/sample/'', Cap (Plus digit), Lit ''/'', Cap (Plus digit),
                    Lit ''/ts.'', Cap (PlusLazy anychar), Lit ''.m3u8'']"

definition images_re :: re where  \<comment> \<open>\<^verbatim>\<open>"(/contents/.+/\d+?\.\w+?)"\<close>\<close>
  "images_re = cat [Lit dquote,
                    Cap (cat [Lit ''/contents/'', Plus anychar, Lit ''/'', PlusLazy digit,
                              Lit ''.'', PlusLazy word]),
                    Lit dquote]"

subsection \<open>The callbacks, in the order of their registration\<close>

text \<open>JSON\<close>

definition onJSON ::
  "('t, 'f) lib \<Rightarrow> movie_page \<Rightarrow> string \<Rightarrow> ('t, 'f) MovieInfo \<Rightarrow> ('t, 'f) MovieInfo" where
  "onJSON L page text info =
     (case json_ld L text of
        None \<Rightarrow> info
      | Some data \<Rightarrow>
          let info = info\<lparr>Title := ld_name data\<rparr>;
              info = info\<lparr>Summary := ld_description data\<rparr>;
              info = info\<lparr>CoverURL := AbsoluteURL page (ld_image data)\<rparr>;
              info = info\<lparr>ThumbURL := CoverURL info\<rparr>;
              info = info\<lparr>ReleaseDate := ParseDate L (ld_startDate data)\<rparr>;
              info = info\<lparr>Runtime := ParseRuntime L (ld_duration data)\<rparr>;
              info = info\<lparr>Score := ParseScore L (ld_ratingValue data)\<rparr>;
              info = (if ld_provider data \<noteq> [] then info\<lparr>Maker := ld_provider data\<rparr> else info);
              info = (if ld_actor data \<noteq> [] then info\<lparr>Actors := [ld_actor data]\<rparr> else info)
          in info)"

text \<open>Title: \<open>strings.Fields(e.Text)[0]\<close> panics on a heading without a field.\<close>

definition onTitle :: "string \<Rightarrow> ('t, 'f) MovieInfo \<Rightarrow> ('t, 'f) MovieInfo option" where
  "onTitle text info =
     (if Title info = [] then
        (case Fields_first text of
           None \<Rightarrow> None
         | Some f \<Rightarrow> Some (info\<lparr>Title := f\<rparr>))
      else Some info)"

text \<open>Summary\<close>

definition onSummary :: "string \<Rightarrow> ('t, 'f) MovieInfo \<Rightarrow> ('t, 'f) MovieInfo" where
  "onSummary text info =
     (if Summary info = [] then info\<lparr>Summary := TrimSpace text\<rparr> else info)"

text \<open>Thumb+Cover (fallback)\<close>

definition onCover :: "movie_page \<Rightarrow> string \<Rightarrow> ('t, 'f) MovieInfo \<Rightarrow> ('t, 'f) MovieInfo" where
  "onCover page content info =
     (if CoverURL info = [] then
        (let info = info\<lparr>CoverURL := AbsoluteURL page content\<rparr>
         in info\<lparr>ThumbURL := CoverURL info\<rparr>)
      else info)"

text \<open>Fields\<close>

definition onFields ::
  "('t, 'f) lib \<Rightarrow> info_row \<Rightarrow> ('t, 'f) MovieInfo \<Rightarrow> ('t, 'f) MovieInfo" where
  "onFields L e info =
     (if td1 e = label_release then info\<lparr>ReleaseDate := ParseDate L (td2 e)\<rparr>
      else if td1 e = label_cast then info\<lparr>Actors := td2_a_span e\<rparr>
      else if td1 e = label_series then info\<lparr>Series := Trim (td2 e) ''-''\<rparr>
      else if td1 e = label_rating then info\<lparr>Score := ParseScore L (span_ratingValue e)\<rparr>
      else info)"

text \<open>Tags\<close>

definition onTags :: "string list \<Rightarrow> ('t, 'f) MovieInfo \<Rightarrow> ('t, 'f) MovieInfo" where
  "onTags li_a info = info\<lparr>Tags := li_a\<rparr>"

text \<open>Video+Runtime\<close>

definition onScript ::
  "('t, 'f) lib \<Rightarrow> movie_page \<Rightarrow> string \<Rightarrow> ('t, 'f) MovieInfo \<Rightarrow> ('t, 'f) MovieInfo" where
  "onScript L page text info =
     (let info =
            (if Contains text ''emvideo'' then
               (let sub = FindStringSubmatch emvideo_re text
                in if length sub = 2 then info\<lparr>PreviewVideoURL := AbsoluteURL page (sub ! 1)\<rparr>
                   else info)
             else info)
      in if Contains text ''o = {'' then
           (let sub = FindStringSubmatch runtime_re text
            in if length sub = 2 then
                 (case json_full L (sub ! 1) of
                    None \<Rightarrow> info
                  | Some full \<Rightarrow> info\<lparr>Runtime := ParseRuntime L full\<rparr>)
               else info)
         else info)"

text \<open>
  Preview Video. The state of this callback is the record and the list of the URLs that the
  nested collector was asked to visit. \<open>onResponse\<close> is the nested collector's callback: its
  deferred function writes the HLS URL after the body of the callback has run.
\<close>

definition onResponse ::
  "('t, 'f) lib \<Rightarrow> response \<Rightarrow> ('t, 'f) MovieInfo \<Rightarrow> ('t, 'f) MovieInfo" where
  "onResponse L r info =
     (let info =
            (case ParseMediaURI L (resp_Body r) of
               Inl err \<Rightarrow> info
             | Inr uri \<Rightarrow>
                 (let ss = FindStringSubmatch sample_re uri
                  in if length ss = 4
                     then info\<lparr>PreviewVideoURL := sampleURL (ss ! 1) (ss ! 2) (ss ! 3)\<rparr>
                     else info))
      in info\<lparr>PreviewVideoHLSURL := resp_URL r\<rparr>)"

definition onPlayer ::
  "('t, 'f) lib \<Rightarrow> movie_source \<Rightarrow> movie_page \<Rightarrow> string \<Rightarrow>
   ('t, 'f) MovieInfo \<times> string list \<Rightarrow> ('t, 'f) MovieInfo \<times> string list" where
  "onPlayer L src page text st =
     (if \<not> Contains text ''movieId'' then st
      else
        let sub = FindStringSubmatch movieId_re text;
            movieID = (if length sub = 2 then sub ! 1 else []);
            sub = FindStringSubmatch siteID_re text;
            siteID = (if length sub = 2 then sub ! 1 else [])
        in if movieID = [] \<or> siteID = [] then st
           else
             let sub = FindStringSubmatch stream_re text
             in if length sub = 4 then
                  (let m3u8Link = AbsoluteURL page
                         ((sub ! 1) @ siteID @ (sub ! 2) @ movieID @ (sub ! 3))
                   in case st of (info, visited) \<Rightarrow>
                        (case visit_manifest src m3u8Link of
                           None \<Rightarrow> (info, visited @ [m3u8Link])
                         | Some r \<Rightarrow> (onResponse L r info, visited @ [m3u8Link])))
                else st)"

text \<open>Preview Images\<close>

definition onImages :: "movie_page \<Rightarrow> string \<Rightarrow> ('t, 'f) MovieInfo \<Rightarrow> ('t, 'f) MovieInfo" where
  "onImages page text info =
     fold (\<lambda>sub info. info\<lparr>PreviewImages := PreviewImages info @ [AbsoluteURL page (sub ! 1)]\<rparr>)
          (FindAllStringSubmatch images_re text) info"

text \<open>The callbacks of \<open>GetMovieInfoByURL\<close> on one document.\<close>

definition run_movie_callbacks ::
  "('t, 'f) lib \<Rightarrow> movie_source \<Rightarrow> movie_page \<Rightarrow> ('t, 'f) MovieInfo \<Rightarrow>
   (('t, 'f) MovieInfo \<times> string list) option" where
  "run_movie_callbacks L src page info =
     (let info = fold (onJSON L page) (ld_json_scripts page) info
      in case fold_panic onTitle (movie_h1 page) info of
           None \<Rightarrow> None
         | Some info \<Rightarrow>
             let info = fold onSummary (memo_p page) info;
                 info = fold (onCover page) (og_image_content page) info;
                 info = fold (onFields L) (movieInfo_rows page) info;
                 info = fold onTags (tag_keyword_lists page) info;
                 info = fold (onScript L page) (javascript_scripts page) info;
                 st = fold (onPlayer L src page) (playerContainer_scripts page) (info, []);
                 info = fold (onImages page) (sample_images_scripts page) (fst st)
             in Some (info, snd st))"

text \<open>The record that \<open>GetMovieInfoByURL\<close> builds before the fetch.\<close>

definition new_MovieInfo :: "string \<Rightarrow> string \<Rightarrow> ('t::zero, 'f::zero) MovieInfo" where
  "new_MovieInfo ident rawURL =
     \<lparr>ID = ident, Number = ''HEYZO-'' @ ident, Title = [], Summary = [], Provider = Name,
      Homepage = rawURL, Maker = ''HEYZO'', Series = [], Actors = [], Tags = [],
      CoverURL = [], ThumbURL = [], PreviewVideoURL = [], PreviewVideoHLSURL = [],
      PreviewImages = [], ReleaseDate = 0, Runtime = 0, Score = 0\<rparr>"

text \<open>
  \<open>GetMovieInfoByURL\<close> returns the pair \<open>(info, err)\<close> of its named results: \<open>info\<close> is \<open>None\<close>
  for the nil pointer, \<open>err\<close> is \<open>None\<close> for the nil error.
\<close>

definition GetMovieInfoByURL ::
  "('t::zero, 'f::zero) lib \<Rightarrow> movie_source \<Rightarrow> string \<Rightarrow>
   (('t, 'f) MovieInfo option \<times> error option) outcome" where
  "GetMovieInfoByURL L src rawURL =
     (case ParseIDFromURL L rawURL of
        Inl err \<Rightarrow> Return (None, Some err)
      | Inr ident \<Rightarrow>
          let info = new_MovieInfo ident rawURL
          in case visit_page src (Homepage info) of
               Inl err \<Rightarrow> Return (Some info, Some err)
             | Inr page \<Rightarrow>
                 (case run_movie_callbacks L src page info of
                    None \<Rightarrow> Panic
                  | Some (info, visited) \<Rightarrow> Return (Some info, None)))"

section \<open>Provider xslist: the actor record and the search\<close>

text \<open>The fields of \<open>model.ActorInfo\<close> and of \<open>model.ActorSearchResult\<close> that the source names.\<close>

record 't ActorInfo =
  actor_ID :: string
  actor_Name :: string
  actor_Provider :: string
  actor_Homepage :: string
  Aliases :: "string list"
  Images :: "string list"
  Birthday :: 't
  Measurements :: string
  CupSize :: string
  DebutDate :: 't
  BloodType :: string
  Height :: int
  Nationality :: string

record ActorSearchResult =
  result_ID :: string
  result_Name :: string
  result_Images :: "string list"
  result_Provider :: string
  result_Homepage :: string

text \<open>The package constant \<open>name\<close>.\<close>

definition name :: string where
  "name = ''xslist''"

text \<open>
  A child of the matched paragraph: a text node with its \<open>Data\<close>, or a node of another type.
  The node that colly hands to an \<open>OnXML\<close> callback is an \<open>*html.Node\<close> for an HTML document
  and an \<open>*xmlquery.Node\<close> for an XML document, on which the type assertion
  \<open>e.DOM.(*html.Node)\<close> panics.
\<close>

datatype child = TextNode string | OtherNode

datatype dom = HtmlNode "child list" | XmlNode

record gallery_a =
  a_class :: string          \<comment> \<open>\<open>e.Attr("class")\<close>\<close>
  a_data_width :: string     \<comment> \<open>\<open>e.Attr("data-width")\<close>\<close>
  a_data_height :: string    \<comment> \<open>\<open>e.Attr("data-height")\<close>\<close>
  a_href :: string           \<comment> \<open>\<open>e.Attr("href")\<close>\<close>

record actor_page =
  name_spans :: "string list"           \<comment> \<open>text of \<open>//*[@id="sss1"]/header/h1/span\<close>\<close>
  alias_spans :: "string list"          \<comment> \<open>text of \<open>//*[@id="sss1"]/p/span\<close>\<close>
  gallery_links :: "gallery_a list"     \<comment> \<open>\<open>//*[@id="gallery"]/a\<close>\<close>
  layout_p :: "dom list"                \<comment> \<open>\<open>e.DOM\<close> of \<open>//*[@id="layout"]/div/p[1]\<close>\<close>
  height_spans :: "string list"         \<comment> \<open>text of \<open>//span[@itemprop="height"]\<close>\<close>
  nationality_spans :: "string list"    \<comment> \<open>text of \<open>//span[@itemprop="nationality"]\<close>\<close>

record listing =
  h3_a_href :: string        \<comment> \<open>\<open>e.ChildAttr(".//h3/a", "href")\<close>\<close>
  h3_a_title :: string       \<comment> \<open>\<open>e.ChildAttr(".//h3/a", "title")\<close>\<close>
  div1_img_src :: string     \<comment> \<open>\<open>e.ChildAttr(".//div[1]/img", "src")\<close>\<close>

record search_page =
  search_AbsoluteURL :: "string \<Rightarrow> string"    \<comment> \<open>\<open>e.Request.AbsoluteURL\<close>\<close>
  listings :: "listing list"                      \<comment> \<open>\<open>//ul/li\<close>\<close>

subsection \<open>The labels and the pattern\<close>

definition label_birth :: string where  \<comment> \<open>U+51FA U+751F\<close>
  "label_birth = [CHR 0xE5, CHR 0x87, CHR 0xBA, CHR 0xE7, CHR 0x94, CHR 0x9F]"

definition label_measurements :: string where  \<comment> \<open>U+4E09 U+56F4\<close>
  "label_measurements = [CHR 0xE4, CHR 0xB8, CHR 0x89, CHR 0xE5, CHR 0x9B, CHR 0xB4]"

definition label_cup :: string where  \<comment> \<open>U+7F69 U+676F\<close>
  "label_cup = [CHR 0xE7, CHR 0xBD, CHR 0xA9, CHR 0xE6, CHR 0x9D, CHR 0xAF]"

definition label_debut :: string where  \<comment> \<open>U+51FA U+9053 U+65E5 U+671F\<close>
  "label_debut = [CHR 0xE5, CHR 0x87, CHR 0xBA, CHR 0xE9, CHR 0x81, CHR 0x93,
                  CHR 0xE6, CHR 0x97, CHR 0xA5, CHR 0xE6, CHR 0x9C, CHR 0x9F]"

definition label_blood :: string where  \<comment> \<open>U+8840 U+578B\<close>
  "label_blood = [CHR 0xE8, CHR 0xA1, CHR 0x80, CHR 0xE5, CHR 0x9E, CHR 0x8B]"

definition label_height :: string where  \<comment> \<open>U+8EAB U+9AD8\<close>
  "label_height = [CHR 0xE8, CHR 0xBA, CHR 0xAB, CHR 0xE9, CHR 0xAB, CHR 0x98]"

definition label_nationality :: string where  \<comment> \<open>U+56FD U+7C4D\<close>
  "label_nationality = [CHR 0xE5, CHR 0x9B, CHR 0xBD, CHR 0xE7, CHR 0xB1, CHR 0x8D]"

definition debut_re :: re where  \<comment> \<open>\<^verbatim>\<open>^([\s\d]+)Y([\s\d]+)M$\<close> with Y = U+5E74 and M = U+6708\<close>
  "debut_re = cat [Bot, Cap (Plus space_or_digit), Lit [CHR 0xE5, CHR 0xB9, CHR 0xB4],
                   Cap (Plus space_or_digit), Lit [CHR 0xE6, CHR 0x9C, CHR 0x88], Eot]"

definition parseDebutDate :: "('t, 'f) lib \<Rightarrow> string \<Rightarrow> 't" where
  "parseDebutDate L s =
     (let ss = FindStringSubmatch debut_re s
      in if length ss = 3 then time_Date L (ParseInt L (ss ! 1)) (ParseInt L (ss ! 2))
         else ParseDate L s)"

subsection \<open>The callbacks of \<open>GetActorInfoByURL\<close>, in the order of their registration\<close>

text \<open>Name\<close>

definition onName :: "string \<Rightarrow> 't ActorInfo \<Rightarrow> 't ActorInfo" where
  "onName text info = info\<lparr>actor_Name := text\<rparr>"

text \<open>Aliases\<close>

definition onAlias :: "string \<Rightarrow> 't ActorInfo \<Rightarrow> 't ActorInfo" where
  "onAlias text info = info\<lparr>Aliases := Aliases info @ [text]\<rparr>"

text \<open>Images\<close>

definition onGallery :: "('t, 'f) lib \<Rightarrow> gallery_a \<Rightarrow> 't ActorInfo \<Rightarrow> 't ActorInfo" where
  "onGallery L e info =
     (if a_class e = ''profile_img'' then info
      else
        let width = ParseInt L (a_data_width e);
            height = ParseInt L (a_data_height e)
        in if width = 0 \<or> height = 0 then info
           else info\<lparr>Images := Images info @ [a_href e]\<rparr>)"

text \<open>Fields: the body of the loop over the children of the paragraph, and the callback.\<close>

definition onProfileChild :: "('t, 'f) lib \<Rightarrow> child \<Rightarrow> 't ActorInfo \<Rightarrow> 't ActorInfo" where
  "onProfileChild L n info =
     (case n of
        OtherNode \<Rightarrow> info
      | TextNode data \<Rightarrow>
          (let ss = SplitN2 (TrimSpace data) '':''
           in if length ss = 2 then
                (let v = TrimSpace (ss ! 1)
                 in if v = [] \<or> v = ''n/a'' then info
                    else if ss ! 0 = label_birth then info\<lparr>Birthday := ParseDate L v\<rparr>
                    else if ss ! 0 = label_measurements
                      then info\<lparr>Measurements := ReplaceAll v '' '' []\<rparr>
                    else if ss ! 0 = label_cup
                      then info\<lparr>CupSize := TrimSpace (TrimSuffix v ''Cup'')\<rparr>
                    else if ss ! 0 = label_debut then info\<lparr>DebutDate := parseDebutDate L v\<rparr>
                    else if ss ! 0 = label_blood then info\<lparr>BloodType := v\<rparr>
                    else if ss ! 0 = label_height
                      then info\<lparr>Height := ParseInt L (TrimRight v ''cm'')\<rparr>
                    else if ss ! 0 = label_nationality then info\<lparr>Nationality := v\<rparr>
                    else info)
              else info))"

definition onProfile :: "('t, 'f) lib \<Rightarrow> dom \<Rightarrow> 't ActorInfo \<Rightarrow> 't ActorInfo option" where
  "onProfile L d info =
     (case d of
        XmlNode \<Rightarrow> None
      | HtmlNode children \<Rightarrow> Some (fold (onProfileChild L) children info))"

text \<open>Height\<close>

definition onHeight :: "('t, 'f) lib \<Rightarrow> string \<Rightarrow> 't ActorInfo \<Rightarrow> 't ActorInfo" where
  "onHeight L text info = info\<lparr>Height := ParseInt L (TrimRight text ''cm'')\<rparr>"

text \<open>Nationality\<close>

definition onNationality :: "string \<Rightarrow> 't ActorInfo \<Rightarrow> 't ActorInfo" where
  "onNationality text info = info\<lparr>Nationality := ReplaceAll text ''n/a'' []\<rparr>"

definition run_actor_callbacks ::
  "('t, 'f) lib \<Rightarrow> actor_page \<Rightarrow> 't ActorInfo \<Rightarrow> 't ActorInfo option" where
  "run_actor_callbacks L page info =
     (let info = fold onName (name_spans page) info;
          info = fold onAlias (alias_spans page) info;
          info = fold (onGallery L) (gallery_links page) info
      in case fold_panic (onProfile L) (layout_p page) info of
           None \<Rightarrow> None
         | Some info \<Rightarrow>
             let info = fold (onHeight L) (height_spans page) info;
                 info = fold onNationality (nationality_spans page) info
             in Some info)"

text \<open>The record that \<open>GetActorInfoByURL\<close> builds before the fetch.\<close>

definition new_ActorInfo :: "URL \<Rightarrow> ('t::zero) ActorInfo" where
  "new_ActorInfo homepage =
     (let ext = path_Ext (url_Path homepage);
          ident = (if ext \<noteq> []
                   then path_Base (take (length (url_Path homepage) - length ext) (url_Path homepage))
                   else [])
      in \<lparr>actor_ID = ident, actor_Name = [], actor_Provider = name,
          actor_Homepage = url_String homepage, Aliases = [], Images = [], Birthday = 0,
          Measurements = [], CupSize = [], DebutDate = 0, BloodType = [], Height = 0,
          Nationality = []\<rparr>)"

definition GetActorInfoByURL ::
  "('t::zero, 'f) lib \<Rightarrow> (string \<Rightarrow> error + actor_page) \<Rightarrow> string \<Rightarrow>
   ('t ActorInfo option \<times> error option) outcome" where
  "GetActorInfoByURL L visit u =
     (case url_Parse L u of
        Inl err \<Rightarrow> Return (None, Some err)
      | Inr homepage \<Rightarrow>
          let info = new_ActorInfo homepage
          in case visit (actor_Homepage info) of
               Inl err \<Rightarrow> Return (Some info, Some err)
             | Inr page \<Rightarrow>
                 (case run_actor_callbacks L page info of
                    None \<Rightarrow> Panic
                  | Some info \<Rightarrow> Return (Some info, None)))"

subsection \<open>\<open>SearchActor\<close>\<close>

text \<open>
  The callback on one listing node. The error of \<open>url.Parse\<close> is dropped; on an error the
  URL is nil and reading its \<open>Path\<close> panics. The local variable \<open>name\<close> declared in the
  callback (here \<open>name'\<close>) hides the package constant \<open>name\<close> from its declaration on, so
  the composite literal reads the local variable for both \<open>Name\<close> and \<open>Provider\<close>.
\<close>

definition searchURL :: "string \<Rightarrow> string" where
  \<comment> \<open>\<open>fmt.Sprintf("https://xslist.org/search?query=%s&lg=zh", q)\<close>\<close>
  "searchURL q = ''https://xslist.org/search?query='' @ q @ ''&lg=zh''"

definition onListing ::
  "('t, 'f) lib \<Rightarrow> search_page \<Rightarrow> listing \<Rightarrow> ActorSearchResult list \<Rightarrow>
   ActorSearchResult list option" where
  "onListing L page e results =
     (case url_Parse L (h3_a_href e) of
        Inl err \<Rightarrow> None
      | Inr homepage \<Rightarrow>
          let ident = path_Base (url_Path homepage);
              ext = path_Ext ident;
              ident = (if ext \<noteq> [] then take (length ident - length ext) ident else ident);
              name' = h3_a_title e;
              ss = SplitN2 name' ''-'';
              name' = (if length ss = 2 then TrimSpace (ss ! 1) else name');
              img = div1_img_src e;
              images = (if img \<noteq> [] then [search_AbsoluteURL page img] else [])
          in Some (results @
                   [\<lparr>result_ID = ident, result_Name = name', result_Images = images,
                     result_Provider = name', result_Homepage = url_String homepage\<rparr>]))"

definition SearchActor ::
  "('t, 'f) lib \<Rightarrow> (string \<Rightarrow> error + search_page) \<Rightarrow> string \<Rightarrow>
   (ActorSearchResult list \<times> error option) outcome" where
  "SearchActor L visit keyword =
     (case visit (searchURL (url_QueryEscape L keyword)) of
        Inl err \<Rightarrow> Return ([], Some err)
      | Inr page \<Rightarrow>
          (case fold_panic (onListing L page) (listings page) [] of
             None \<Rightarrow> Panic
           | Some results \<Rightarrow> Return (results, None)))"

section \<open>Notions used in the statements\<close>

text \<open>
  The identifier grammar in the words of the specification: an optional prefix \<open>heyzo-\<close> in
  any letter case, then a non-empty string of digits, and nothing else. \<open>id_grammar x p d\<close>
  reads: \<open>x\<close> is the prefix \<open>p\<close> followed by the digits \<open>d\<close>.
\<close>

definition id_grammar :: "string \<Rightarrow> string \<Rightarrow> string \<Rightarrow> bool" where
  "id_grammar x p d =
     (x = p @ d \<and> (p = [] \<or> map to_lower p = ''heyzo-'') \<and> d \<noteq> [] \<and> list_all digit d)"




definition thumb_is_cover :: "('t, 'f) MovieInfo \<Rightarrow> bool" where
  "thumb_is_cover info = (ThumbURL info = CoverURL info)"



text \<open>
  A declarative reading of a pattern without anchors: \<open>lang r\<close> is the set of the texts that
  \<open>r\<close> matches, each with the texts of its capture groups. \<open>occurs r t\<close> says that some text
  of \<open>lang r\<close> occurs in \<open>t\<close>; \<open>seg t i j\<close> is the text of \<open>t\<close> from position \<open>i\<close> up to \<open>j\<close>.
\<close>

definition seg :: "string \<Rightarrow> nat \<Rightarrow> nat \<Rightarrow> string" where
  "seg t i j = take (j - i) (drop i t)"

fun anchor_free :: "re \<Rightarrow> bool" where
  "anchor_free Bot = False"
| "anchor_free Eot = False"
| "anchor_free (Opt r) = anchor_free r"
| "anchor_free (Cap r) = anchor_free r"
| "anchor_free (Seq a b) = (anchor_free a \<and> anchor_free b)"
| "anchor_free r = True"

fun lang :: "re \<Rightarrow> (string \<times> string list) set" where
  "lang Eps = {([], [])}"
| "lang (Lit l) = {(l, [])}"
| "lang (LitFold l) = {(w, c). map to_lower w = map to_lower l \<and> c = []}"
| "lang (Opt r) = lang r \<union> {([], [])}"
| "lang (Star p) = {(w, c). list_all p w \<and> c = []}"
| "lang (Plus p) = {(w, c). w \<noteq> [] \<and> list_all p w \<and> c = []}"
| "lang (PlusLazy p) = {(w, c). w \<noteq> [] \<and> list_all p w \<and> c = []}"
| "lang (Cap r) = {(w, c). \<exists>c'. c = w # c' \<and> (w, c') \<in> lang r}"
| "lang (Seq a b) =
     {(w, c). \<exists>w1 c1 w2 c2. w = w1 @ w2 \<and> c = c1 @ c2 \<and> (w1, c1) \<in> lang a \<and> (w2, c2) \<in> lang b}"
| "lang Bot = {([], [])}"
| "lang Eot = {([], [])}"

definition occurs :: "re \<Rightarrow> string \<Rightarrow> bool" where
  "occurs r t = (\<exists>w c. (w, c) \<in> lang r \<and> sublist w t)"

text \<open>
  The shape \<open>/sample/<digits>/<digits>/ts.<fragment>.m3u8\<close>: \<open>sample_path a b f\<close> is the path
  with the digit groups \<open>a\<close>, \<open>b\<close> and the fragment \<open>f\<close>; \<open>sample_groups a b f\<close> says that \<open>a\<close>
  and \<open>b\<close> are non-empty strings of digits and \<open>f\<close> is non-empty and free of newlines.
\<close>

definition sample_path :: "string \<Rightarrow> string \<Rightarrow> string \<Rightarrow> string" where
  "sample_path a b f = ''/sample/'' @ a @ ''/'' @ b @ ''/ts.'' @ f @ ''.m3u8''"

definition sample_groups :: "string \<Rightarrow> string \<Rightarrow> string \<Rightarrow> bool" where
  "sample_groups a b f =
     (a \<noteq> [] \<and> list_all digit a \<and> b \<noteq> [] \<and> list_all digit b \<and> f \<noteq> [] \<and> list_all anychar f)"

section \<open>A concrete environment\<close>

text \<open>
  The concrete inputs of the examples below. The collaborators are given by their values on
  the inputs that occur: \<open>url.Parse\<close> on two absolute URLs without query or fragment,
  \<open>path.Dir\<close> on a clean rooted path, the JSON decoder on one document, the parsers on the
  strings of the pages. Dates are written as the number yyyymmdd, scores in tenths.
\<close>

definition demo_url_Parse :: "string \<Rightarrow> error + URL" where
  "demo_url_Parse u =
     (if prefix ''https://www.heyzo.com/'' u then Inr \<lparr>url_Path = drop 21 u, url_String = u\<rparr>
      else if prefix ''https://xslist.org/'' u then Inr \<lparr>url_Path = drop 18 u, url_String = u\<rparr>
      else Inl ''invalid URL'')"

definition demo_path_Dir :: "string \<Rightarrow> string" where
  "demo_path_Dir p = butlast (rev (dropWhile (\<lambda>c. c \<noteq> CHR ''/'') (rev p)))"

definition quoted :: "string \<Rightarrow> string" where
  "quoted s = dquote @ s @ dquote"

definition demo_ld_text :: string where
  "demo_ld_text =
     ''{'' @ quoted ''name'' @ '':'' @ quoted ''From JSON'' @ '','' @
     quoted ''image'' @ '':'' @ quoted ''/images/cover.jpg'' @ '','' @
     quoted ''description'' @ '':'' @ quoted ''Summary from JSON'' @ '','' @
     quoted ''releasedEvent'' @ '':{'' @ quoted ''startDate'' @ '':'' @ quoted ''2020-12-31'' @ ''},'' @
     quoted ''aggregateRating'' @ '':{'' @ quoted ''ratingValue'' @ '':'' @ quoted ''3.0'' @ ''}}''"

definition demo_json_ld :: "string \<Rightarrow> ld_data option" where
  "demo_json_ld t =
     (if t = demo_ld_text
      then Some \<lparr>ld_name = ''From JSON'', ld_image = ''/images/cover.jpg'',
                 ld_description = ''Summary from JSON'', ld_startDate = ''2020-12-31'',
                 ld_duration = [], ld_actor = [], ld_provider = [], ld_ratingValue = ''3.0''\<rparr>
      else None)"

definition demo_ParseDate :: "string \<Rightarrow> int" where
  "demo_ParseDate s =
     (if s = ''2021-01-02'' then 20210102 else if s = ''2020-12-31'' then 20201231 else 0)"

definition demo_ParseScore :: "string \<Rightarrow> int" where
  "demo_ParseScore s = (if s = ''4.5'' then 45 else if s = ''3.0'' then 30 else 0)"

definition demo_ParseInt :: "string \<Rightarrow> int" where
  "demo_ParseInt s =
     (if s \<noteq> [] \<and> list_all digit s then foldl (\<lambda>n c. 10 * n + (int (byte c) - 48)) 0 s
      else 0)"

definition demo_manifest :: string where
  "demo_manifest =
     ''#EXTM3U'' @ [CHR 0x0A] @ ''#EXT-X-STREAM-INF:BANDWIDTH=800000'' @ [CHR 0x0A] @
     ''/sample/7/8/ts.foo.m3u8'' @ [CHR 0x0A]"

definition other_manifest :: string where
  "other_manifest =
     ''#EXTM3U'' @ [CHR 0x0A] @ ''#EXT-X-STREAM-INF:BANDWIDTH=800000'' @ [CHR 0x0A] @
     ''/video/low.m3u8'' @ [CHR 0x0A]"

definition demo_ParseMediaURI :: "string \<Rightarrow> error + string" where
  "demo_ParseMediaURI body =
     (if body = demo_manifest then Inr ''/sample/7/8/ts.foo.m3u8''
      else if body = other_manifest then Inr ''/video/low.m3u8''
      else Inl ''invalid playlist'')"

definition demo_lib :: "(int, int) lib" where
  "demo_lib =
     \<lparr>url_Parse = demo_url_Parse, url_QueryEscape = (\<lambda>s. s), path_Dir = demo_path_Dir,
      json_ld = demo_json_ld, json_full = (\<lambda>t. None), ParseDate = demo_ParseDate,
      ParseRuntime = (\<lambda>s. 0), ParseScore = demo_ParseScore, ParseInt = demo_ParseInt,
      time_Date = (\<lambda>y m. y * 10000 + m * 100 + 1), ParseMediaURI = demo_ParseMediaURI\<rparr>"

definition demo_movie_url :: string where
  "demo_movie_url = ''https://www.heyzo.com/moviepages/1234/index.html''"

definition demo_player_script :: string where
  "demo_player_script =
     ''var movieId='' @ squote @ ''55'' @ squote @ '';var siteID='' @ squote @ ''9'' @ squote @
     '';var stream='' @ squote @ ''/x/'' @ squote @ ''+siteID+'' @ squote @ ''/y/'' @ squote @
     ''+movieId+'' @ squote @ ''/z'' @ squote @ '';''"

definition demo_movie_page :: movie_page where
  "demo_movie_page =
     \<lparr>AbsoluteURL = (\<lambda>u. ''https://www.heyzo.com'' @ u),
      ld_json_scripts = [demo_ld_text],
      movie_h1 = [''From heading''],
      memo_p = [''Summary from memo''],
      og_image_content = [''/images/og.jpg''],
      movieInfo_rows =
        [\<lparr>td1 = label_release, td2 = ''2021-01-02'', td2_a_span = [], span_ratingValue = []\<rparr>,
         \<lparr>td1 = label_rating, td2 = ''4.5'', td2_a_span = [], span_ratingValue = ''4.5''\<rparr>],
      tag_keyword_lists = [[''A'', ''B'']],
      javascript_scripts = [],
      playerContainer_scripts = [demo_player_script],
      sample_images_scripts = []\<rparr>"

definition demo_link :: string where
  "demo_link = ''https://www.heyzo.com/x/9/y/55/z''"

definition demo_response :: response where
  "demo_response = \<lparr>resp_URL = demo_link, resp_Body = demo_manifest\<rparr>"

definition other_response :: response where
  "other_response = \<lparr>resp_URL = demo_link, resp_Body = other_manifest\<rparr>"

definition demo_source :: movie_source where
  "demo_source =
     \<lparr>visit_page = (\<lambda>u. if u = demo_movie_url then Inr demo_movie_page else Inl ''not found''),
      visit_manifest = (\<lambda>u. if u = demo_link then Some demo_response else None)\<rparr>"

definition offline_source :: movie_source where
  "offline_source =
     \<lparr>visit_page = (\<lambda>u. Inl ''connection refused''), visit_manifest = (\<lambda>u. None)\<rparr>"

definition demo_seed :: "(int, int) MovieInfo" where
  "demo_seed = new_MovieInfo ''1234'' demo_movie_url"

definition demo_movie_record :: "(int, int) MovieInfo" where
  "demo_movie_record =
     \<lparr>ID = ''1234'', Number = ''HEYZO-1234'', Title = ''From JSON'',
      Summary = ''Summary from JSON'', Provider = ''HEYZO'',
      Homepage = ''https://www.heyzo.com/moviepages/1234/index.html'',
      Maker = ''HEYZO'', Series = [], Actors = [], Tags = [''A'', ''B''],
      CoverURL = ''https://www.heyzo.com/images/cover.jpg'',
      ThumbURL = ''https://www.heyzo.com/images/cover.jpg'',
      PreviewVideoURL = ''https://www.heyzo.com/contents/7/8/foo'',
      PreviewVideoHLSURL = ''https://www.heyzo.com/x/9/y/55/z'',
      PreviewImages = [], ReleaseDate = 20210102, Runtime = 0, Score = 45\<rparr>"

definition demo_actor_url :: string where
  "demo_actor_url = ''https://xslist.org/zh/model/123.html''"



definition offline_actor_visit :: "string \<Rightarrow> error + actor_page" where
  "offline_actor_visit u = Inl ''connection refused''"

definition demo_actor_seed :: "int ActorInfo" where
  "demo_actor_seed =
     \<lparr>actor_ID = ''123'', actor_Name = [], actor_Provider = ''xslist'',
      actor_Homepage = ''https://xslist.org/zh/model/123.html'', Aliases = [], Images = [],
      Birthday = 0, Measurements = [], CupSize = [], DebutDate = 0, BloodType = [],
      Height = 0, Nationality = []\<rparr>"

definition demo_search_page :: search_page where
  "demo_search_page =
     \<lparr>search_AbsoluteURL = (\<lambda>u. u),
      listings = [\<lparr>h3_a_href = ''https://xslist.org/zh/model/123.html'',
                   h3_a_title = ''1 - Jane Doe'',
                   div1_img_src = ''https://xslist.org/img/123.jpg''\<rparr>]\<rparr>"

definition demo_search_visit :: "string \<Rightarrow> error + search_page" where
  "demo_search_visit u =
     (if u = ''https://xslist.org/search?query=jane&lg=zh'' then Inr demo_search_page
      else Inl ''not found'')"

section \<open>The matcher against the declarative reading\<close>

lemma seg_length: "j \<le> length t \<Longrightarrow> length (seg t i j) = j - i"
  by (simp add: seg_def)

lemma seg_append: "i \<le> k \<Longrightarrow> k \<le> j \<Longrightarrow> seg t i j = seg t i k @ seg t k j"
proof -
  assume a: "i \<le> k" "k \<le> j"
  then have "j - i = (k - i) + (j - k)" by simp
  then have "take (j - i) (drop i t) = take (k - i) (drop i t) @ take (j - k) (drop (k - i) (drop i t))"
    by (simp only: take_add)
  then show ?thesis using a by (simp add: seg_def)
qed

lemma seg_split:
  assumes "seg t i j = w1 @ w2" "i \<le> j" "j \<le> length t"
  shows "i + length w1 \<le> j \<and> seg t i (i + length w1) = w1 \<and> seg t (i + length w1) j = w2"
proof -
  have "length (w1 @ w2) = j - i" using assms seg_length [of j t i] by simp
  then have le: "i + length w1 \<le> j" using assms(2) by simp
  have "seg t i j = seg t i (i + length w1) @ seg t (i + length w1) j"
    by (rule seg_append) (simp_all add: le)
  moreover have "length (seg t i (i + length w1)) = length w1"
    using le assms(3) by (simp add: seg_length)
  ultimately show ?thesis using assms(1) le by (metis append_eq_append_conv)
qed

lemma seg_self [simp]: "seg t i i = []"
  by (simp add: seg_def)

lemma seg_Nil_iff: "i \<le> j \<Longrightarrow> j \<le> length t \<Longrightarrow> (seg t i j = []) = (j = i)"
  using seg_length [of j t i] by auto

lemma le_run_iff:
  "(k \<le> run p t i) = (i + k \<le> max i (length t) \<and> list_all p (seg t i (i + k)))"
proof -
  have "(k \<le> length (takeWhile p xs)) = (k \<le> length xs \<and> list_all p (take k xs))" for xs
  proof (induction xs arbitrary: k)
    case Nil
    then show ?case by simp
  next
    case (Cons x xs)
    then show ?case by (cases k) auto
  qed
  from this [of "drop i t"] show ?thesis
    by (auto simp: run_def seg_def)
qed

lemma ms_lang:
  "anchor_free r \<Longrightarrow> i \<le> length t \<Longrightarrow>
   ((c, j) \<in> set (ms r t i)) = (i \<le> j \<and> j \<le> length t \<and> (seg t i j, c) \<in> lang r)"
proof (induction r arbitrary: c i j)
  case Eps
  then show ?case using seg_length [of j t i] by auto
next
  case (Lit l)
  show ?case
  proof
    assume "(c, j) \<in> set (ms (Lit l) t i)"
    then have m: "take (length l) (drop i t) = l" and j: "j = i + length l" and c: "c = []"
      by (auto split: if_splits)
    from m have "length (take (length l) (drop i t)) = length l" by simp
    then have "i + length l \<le> length t" using Lit by simp
    then show "i \<le> j \<and> j \<le> length t \<and> (seg t i j, c) \<in> lang (Lit l)"
      using m j c by (simp add: seg_def)
  next
    assume a: "i \<le> j \<and> j \<le> length t \<and> (seg t i j, c) \<in> lang (Lit l)"
    then have m: "seg t i j = l" and c: "c = []" by auto
    then have "length l = j - i" using a seg_length [of j t i] by simp
    then have "j = i + length l" using a by simp
    then show "(c, j) \<in> set (ms (Lit l) t i)" using m c by (simp add: seg_def)
  qed
next
  case (LitFold l)
  show ?case
  proof
    assume "(c, j) \<in> set (ms (LitFold l) t i)"
    then have m: "map to_lower (take (length l) (drop i t)) = map to_lower l"
      and j: "j = i + length l" and c: "c = []"
      by (auto split: if_splits)
    from m have "length (take (length l) (drop i t)) = length l"
      by (metis length_map)
    then have "i + length l \<le> length t" using LitFold by simp
    then show "i \<le> j \<and> j \<le> length t \<and> (seg t i j, c) \<in> lang (LitFold l)"
      using m j c by (simp add: seg_def)
  next
    assume a: "i \<le> j \<and> j \<le> length t \<and> (seg t i j, c) \<in> lang (LitFold l)"
    then have m: "map to_lower (seg t i j) = map to_lower l" and c: "c = []" by auto
    then have "length (seg t i j) = length l" by (metis length_map)
    then have "j - i = length l" using a by (simp add: seg_length)
    then have "j = i + length l" using a by linarith
    then show "(c, j) \<in> set (ms (LitFold l) t i)" using m c by (simp add: seg_def)
  qed
next
  case (Opt r)
  then show ?case by (auto simp: seg_Nil_iff)
next
  case (Star p)
  have "((c, j) \<in> set (ms (Star p) t i)) = (c = [] \<and> (\<exists>k. k \<le> run p t i \<and> j = i + k))"
    by (auto simp: image_iff)
  also have "\<dots> = (c = [] \<and> i \<le> j \<and> j \<le> length t \<and> list_all p (seg t i j))"
    using Star by (auto simp: le_run_iff intro: exI [where x = "j - i"])
  finally show ?case by auto
next
  case (Plus p)
  have "((c, j) \<in> set (ms (Plus p) t i)) = (c = [] \<and> (\<exists>k. 1 \<le> k \<and> k \<le> run p t i \<and> j = i + k))"
    by (auto simp: image_iff)
  also have "\<dots> = (c = [] \<and> i < j \<and> j \<le> length t \<and> list_all p (seg t i j))"
    using Plus by (auto simp: le_run_iff intro: exI [where x = "j - i"])
  also have "\<dots> = (i \<le> j \<and> j \<le> length t \<and> (seg t i j, c) \<in> lang (Plus p))"
    using seg_length [of j t i] by (auto simp: le_less)
  finally show ?case .
next
  case (PlusLazy p)
  have "((c, j) \<in> set (ms (PlusLazy p) t i)) = (c = [] \<and> (\<exists>k. 1 \<le> k \<and> k \<le> run p t i \<and> j = i + k))"
    by (auto simp: image_iff)
  also have "\<dots> = (c = [] \<and> i < j \<and> j \<le> length t \<and> list_all p (seg t i j))"
    using PlusLazy by (auto simp: le_run_iff intro: exI [where x = "j - i"])
  also have "\<dots> = (i \<le> j \<and> j \<le> length t \<and> (seg t i j, c) \<in> lang (PlusLazy p))"
    using seg_length [of j t i] by (auto simp: le_less)
  finally show ?case .
next
  case (Cap r)
  then have ih: "\<And>c j. ((c, j) \<in> set (ms r t i)) =
      (i \<le> j \<and> j \<le> length t \<and> (seg t i j, c) \<in> lang r)" by simp
  have "((c, j) \<in> set (ms (Cap r) t i)) = (\<exists>c'. c = seg t i j # c' \<and> (c', j) \<in> set (ms r t i))"
    by (auto simp: seg_def image_iff) force
  then show ?case by (auto simp: ih)
next
  case (Seq a b)
  then have iha: "\<And>c k. ((c, k) \<in> set (ms a t i)) =
      (i \<le> k \<and> k \<le> length t \<and> (seg t i k, c) \<in> lang a)" by simp
  have ihb: "\<And>c k j. k \<le> length t \<Longrightarrow> ((c, j) \<in> set (ms b t k)) =
      (k \<le> j \<and> j \<le> length t \<and> (seg t k j, c) \<in> lang b)" using Seq by simp
  have "((c, j) \<in> set (ms (Seq a b) t i)) =
        (\<exists>c1 k c2. (c1, k) \<in> set (ms a t i) \<and> (c2, j) \<in> set (ms b t k) \<and> c = c1 @ c2)"
    by (auto simp: image_iff) force+
  also have "\<dots> = (\<exists>c1 k c2. i \<le> k \<and> k \<le> j \<and> j \<le> length t \<and> (seg t i k, c1) \<in> lang a \<and>
                      (seg t k j, c2) \<in> lang b \<and> c = c1 @ c2)"
  proof -
    have "((c1, k) \<in> set (ms a t i) \<and> (c2, j) \<in> set (ms b t k) \<and> c = c1 @ c2) =
          (i \<le> k \<and> k \<le> j \<and> j \<le> length t \<and> (seg t i k, c1) \<in> lang a \<and>
                      (seg t k j, c2) \<in> lang b \<and> c = c1 @ c2)" for c1 k c2
    proof (cases "k \<le> length t")
      case True
      then show ?thesis by (simp add: iha ihb) blast
    next
      case False
      then show ?thesis by (simp add: iha)
    qed
    then show ?thesis by simp
  qed
  also have "\<dots> = (i \<le> j \<and> j \<le> length t \<and> (seg t i j, c) \<in> lang (Seq a b))"
  proof
    assume "\<exists>c1 k c2. i \<le> k \<and> k \<le> j \<and> j \<le> length t \<and> (seg t i k, c1) \<in> lang a \<and>
                      (seg t k j, c2) \<in> lang b \<and> c = c1 @ c2"
    then obtain c1 k c2 where k: "i \<le> k" "k \<le> j" "j \<le> length t"
      "(seg t i k, c1) \<in> lang a" "(seg t k j, c2) \<in> lang b" "c = c1 @ c2" by blast
    have s: "seg t i j = seg t i k @ seg t k j" using k(1,2) by (rule seg_append)
    have "(seg t i j, c) \<in> lang (Seq a b)"
      unfolding lang.simps mem_Collect_eq case_prod_conv using s k(4,5,6) by blast
    moreover have "i \<le> j" using k(1,2) by simp
    ultimately show "i \<le> j \<and> j \<le> length t \<and> (seg t i j, c) \<in> lang (Seq a b)"
      using k(3) by simp
  next
    assume r: "i \<le> j \<and> j \<le> length t \<and> (seg t i j, c) \<in> lang (Seq a b)"
    then have "(seg t i j, c) \<in> lang (Seq a b)" by simp
    then obtain w1 c1 w2 c2 where w: "seg t i j = w1 @ w2" "c = c1 @ c2"
      "(w1, c1) \<in> lang a" "(w2, c2) \<in> lang b"
      unfolding lang.simps mem_Collect_eq case_prod_conv by blast
    from seg_split [OF w(1)] r
    have "i + length w1 \<le> j" "seg t i (i + length w1) = w1" "seg t (i + length w1) j = w2"
      by simp_all
    then have "i \<le> i + length w1 \<and> i + length w1 \<le> j \<and> j \<le> length t \<and>
       (seg t i (i + length w1), c1) \<in> lang a \<and> (seg t (i + length w1) j, c2) \<in> lang b \<and>
       c = c1 @ c2"
      using w(2,3,4) r by simp
    then show "\<exists>c1 k c2. i \<le> k \<and> k \<le> j \<and> j \<le> length t \<and> (seg t i k, c1) \<in> lang a \<and>
                      (seg t k j, c2) \<in> lang b \<and> c = c1 @ c2"
      by blast
  qed
  finally show ?case .
next
  case Bot
  then show ?case by simp
next
  case Eot
  then show ?case by simp
qed

lemma find_from_Some:
  "find_from r t ps = Some (i, c, j) \<Longrightarrow> i \<in> set ps \<and> (c, j) \<in> set (ms r t i)"
  by (induction ps) (auto split: list.splits)

lemma find_from_None_iff: "(find_from r t ps = None) = (\<forall>i\<in>set ps. ms r t i = [])"
  by (induction ps) (auto split: list.splits)

lemma seg_sublist: "i \<le> j \<Longrightarrow> j \<le> length t \<Longrightarrow> sublist (seg t i j) t"
proof -
  assume a: "i \<le> j" "j \<le> length t"
  have "t = take i t @ drop i t" by simp
  also have "drop i t = take (j - i) (drop i t) @ drop (j - i) (drop i t)"
    by (rule append_take_drop_id [symmetric])
  finally have "t = take i t @ seg t i j @ drop (j - i) (drop i t)" by (simp add: seg_def)
  then show ?thesis unfolding sublist_def by blast
qed

lemma Find_sound:
  assumes "anchor_free r" "FindStringSubmatch r t = m # c"
  shows "(m, c) \<in> lang r \<and> sublist m t"
proof -
  from assms(2) obtain i j where f: "find_from r t [0..<Suc (length t)] = Some (i, c, j)"
    and m: "m = seg t i j"
    by (auto simp: FindStringSubmatch_def seg_def split: option.splits)
  from find_from_Some [OF f] have i: "i \<le> length t" and cj: "(c, j) \<in> set (ms r t i)"
    by auto
  from cj ms_lang [OF assms(1) i, of c j]
  have "i \<le> j" "j \<le> length t" "(seg t i j, c) \<in> lang r" by simp_all
  then show ?thesis using m seg_sublist [of i j t] by simp
qed

lemma Find_complete:
  assumes "anchor_free r" "(w, c) \<in> lang r" "sublist w t"
  shows "FindStringSubmatch r t \<noteq> []"
proof -
  from assms(3) obtain ps ss where t: "t = ps @ w @ ss" unfolding sublist_def by blast
  let ?i = "length ps" and ?j = "length ps + length w"
  have s: "seg t ?i ?j = w" by (simp add: seg_def t)
  have i: "?i \<le> length t" by (simp add: t)
  have "(c, ?j) \<in> set (ms r t ?i)"
    using ms_lang [OF assms(1) i, of c ?j] s assms(2) by (simp add: t)
  then have "ms r t ?i \<noteq> []" by auto
  moreover have "?i \<in> set [0..<Suc (length t)]" using i by (simp del: upt_Suc)
  ultimately have "find_from r t [0..<Suc (length t)] \<noteq> None"
    by (subst find_from_None_iff) blast
  then show ?thesis by (auto simp: FindStringSubmatch_def split: option.splits)
qed

lemma occurs_iff: "anchor_free r \<Longrightarrow> occurs r t = (FindStringSubmatch r t \<noteq> [])"
proof -
  assume a: "anchor_free r"
  show ?thesis
  proof
    assume "occurs r t"
    then show "FindStringSubmatch r t \<noteq> []"
      unfolding occurs_def using Find_complete [OF a] by blast
  next
    assume "FindStringSubmatch r t \<noteq> []"
    then obtain m c where "FindStringSubmatch r t = m # c"
      by (cases "FindStringSubmatch r t") auto
    from Find_sound [OF a this] show "occurs r t" unfolding occurs_def by blast
  qed
qed

lemma lang_SeqI:
  "(w1, c1) \<in> lang a \<Longrightarrow> (w2, c2) \<in> lang b \<Longrightarrow> (w1 @ w2, c1 @ c2) \<in> lang (Seq a b)"
  by (simp only: lang.simps mem_Collect_eq case_prod_conv) blast

lemma lang_sample_re_intro:
  assumes "sample_groups a b f"
  shows "(sample_path a b f, [a, b, f]) \<in> lang sample_re"
proof -
  have a: "(a, [a]) \<in> lang (Cap (Plus digit))" and b: "(b, [b]) \<in> lang (Cap (Plus digit))"
    and f: "(f, [f]) \<in> lang (Cap (PlusLazy anychar))"
    using assms by (simp_all add: sample_groups_def)
  have l: "(l, []) \<in> lang (Lit l)" for l by simp
  have e: "([], []) \<in> lang Eps" by simp
  have "(''/sample/'' @ a @ ''/'' @ b @ ''/ts.'' @ f @ ''.m3u8'' @ [],
         [] @ [a] @ [] @ [b] @ [] @ [f] @ [] @ []) \<in> lang sample_re"
    unfolding sample_re_def cat.simps
    by (intro lang_SeqI l a b f e)
  then show ?thesis by (simp add: sample_path_def)
qed

lemma lang_sample_re_elim:
  assumes "(w, c) \<in> lang sample_re"
  shows "\<exists>a b f. sample_groups a b f \<and> w = sample_path a b f \<and> c = [a, b, f]"
  using assms by (auto simp: sample_re_def sample_groups_def sample_path_def)

lemma lang_sample_re:
  "((w, c) \<in> lang sample_re) =
   (\<exists>a b f. sample_groups a b f \<and> w = sample_path a b f \<and> c = [a, b, f])"
  using lang_sample_re_intro lang_sample_re_elim by blast

lemma anchor_free_res:
  "anchor_free sample_re" "anchor_free movieId_re" "anchor_free siteID_re" "anchor_free stream_re"
  by (simp_all add: sample_re_def movieId_re_def siteID_re_def stream_re_def)

lemma Find_sample_cases:
  "(FindStringSubmatch sample_re uri = [] \<and>
      \<not> (\<exists>a b f. sample_groups a b f \<and> sublist (sample_path a b f) uri)) \<or>
   (\<exists>a b f. FindStringSubmatch sample_re uri = [sample_path a b f, a, b, f] \<and>
      sample_groups a b f \<and> sublist (sample_path a b f) uri)"
proof (cases "FindStringSubmatch sample_re uri")
  case Nil
  then have "\<not> occurs sample_re uri" by (simp add: occurs_iff anchor_free_res)
  then show ?thesis using Nil unfolding occurs_def lang_sample_re by blast
next
  case (Cons m c)
  from Find_sound [OF anchor_free_res(1) Cons] show ?thesis
    unfolding Cons lang_sample_re by blast
qed

section \<open>The identifier pattern\<close>

lemma concat_map_if_single:
  "concat (map (\<lambda>k. if P k then [f k] else []) xs) = map f (filter P xs)"
  by (induction xs) auto

lemma filter_eq_upt: "filter (\<lambda>k. k = m) [a..<b] = (if a \<le> m \<and> m < b then [m] else [])"
  by (induction b) auto

lemma filter_eq_rev_upt:
  "filter (\<lambda>k. k = m) (rev [a..<b]) = (if a \<le> m \<and> m < b then [m] else [])"
  by (simp add: rev_filter [symmetric] filter_eq_upt)

lemma run_le: "i + run p t i \<le> max i (length t)"
proof -
  have "length (takeWhile p (drop i t)) \<le> length (drop i t)" by (rule length_takeWhile_le)
  then show ?thesis by (simp add: run_def)
qed

lemma run_full: "i < length t \<Longrightarrow> (run p t i = length t - i) = list_all p (drop i t)"
proof -
  have "(length (takeWhile p (drop i t)) = length (drop i t)) = (takeWhile p (drop i t) = drop i t)"
    by (metis takeWhile_eq_take length_take min.idem take_all order_refl)
  then show ?thesis
    by (simp add: run_def takeWhile_eq_all_conv list_all_iff)
qed

lemma ms_digits_to_end:
  "ms (cat [Cap (Plus p), Eot]) t j =
     (if j < length t \<and> list_all p (drop j t) then [([drop j t], length t)] else [])"
proof -
  let ?n = "run p t j"
  have "ms (cat [Cap (Plus p), Eot]) t j =
        concat (map (\<lambda>k. if k = length t - j \<and> j \<le> length t then [([take k (drop j t)], j + k)] else [])
                    (rev [1..<Suc ?n]))"
    by (auto simp: comp_def intro!: arg_cong [where f = concat] map_cong)
  also have "\<dots> = (if j < length t \<and> list_all p (drop j t) then [([drop j t], length t)] else [])"
  proof (cases "j < length t")
    case True
    have le: "?n \<le> length t - j" using run_le [of j p t] True by simp
    show ?thesis
    proof (cases "list_all p (drop j t)")
      case all: True
      then have "?n = length t - j" using run_full [OF True, of p] by simp
      then show ?thesis using True all
        by (simp add: concat_map_if_single filter_eq_rev_upt cong: map_cong)
    next
      case nall: False
      then have "?n \<noteq> length t - j" using run_full [OF True, of p] by simp
      then have "?n < length t - j" using le by simp
      then show ?thesis using True nall
        by (simp add: concat_map_if_single filter_eq_rev_upt)
    qed
  next
    case False
    then have "?n = 0" by (simp add: run_def)
    then show ?thesis using False by simp
  qed
  finally show ?thesis .
qed

lemma find_from_none: "(\<forall>i\<in>set is. ms r t i = []) \<Longrightarrow> find_from r t is = None"
  by (induction "is") auto

lemma ms_Bot_pos: "i \<noteq> 0 \<Longrightarrow> ms (Seq Bot r) t i = []"
  by simp

lemma ms_Bot_Opt_LitFold:
  "ms (Seq Bot (Seq (Opt (LitFold l)) r)) t 0 =
     (if map to_lower (take (length l) t) = map to_lower l then ms r t (length l) else [])
     @ ms r t 0"
  by simp

lemma id_re_unfold: "id_re = Seq Bot (Seq (Opt (LitFold ''heyzo-'')) (cat [Cap (Plus digit), Eot]))"
  by (simp add: id_re_def)

lemma ms_id_re_pos: "i \<noteq> 0 \<Longrightarrow> ms id_re t i = []"
  unfolding id_re_unfold by (rule ms_Bot_pos)

lemma to_lower_heyzo: "map to_lower ''heyzo-'' = ''heyzo-''"
  by (simp add: to_lower_def byte_def)

lemma ms_id_re_0:
  "ms id_re t 0 =
     (if map to_lower (take 6 t) = ''heyzo-'' then ms (cat [Cap (Plus digit), Eot]) t 6 else [])
     @ ms (cat [Cap (Plus digit), Eot]) t 0"
proof -
  have l: "length ''heyzo-'' = 6" by simp
  show ?thesis unfolding id_re_unfold ms_Bot_Opt_LitFold to_lower_heyzo l ..
qed

lemma find_id_re:
  "find_from id_re t [0..<Suc (length t)] =
     (case ms id_re t 0 of [] \<Rightarrow> None | (c, j) # _ \<Rightarrow> Some (0, c, j))"
proof -
  have "[0..<Suc (length t)] = 0 # [1..<Suc (length t)]"
    by (simp add: upt_conv_Cons del: upt_Suc)
  moreover have "find_from id_re t [1..<Suc (length t)] = None"
    by (rule find_from_none) (auto simp: ms_id_re_pos simp del: upt_Suc)
  ultimately show ?thesis by (simp split: list.splits del: upt_Suc)
qed

lemma digit_to_lower: "digit c \<Longrightarrow> to_lower c = c"
  by (simp add: digit_def to_lower_def)

lemma digit_not_h: "digit c \<Longrightarrow> to_lower c \<noteq> CHR ''h''"
  by (auto simp: digit_def to_lower_def byte_def)

lemma NormalizeID_eq:
  "NormalizeID x =
     (if map to_lower (take 6 x) = ''heyzo-'' \<and> 6 < length x \<and> list_all digit (drop 6 x)
      then drop 6 x
      else if x \<noteq> [] \<and> list_all digit x then x else [])"
proof (cases "map to_lower (take 6 x) = ''heyzo-''")
  case True
  then obtain c cs where x: "x = c # cs" and c: "to_lower c = CHR ''h''"
    by (cases x) auto
  then have "\<not> list_all digit x" using digit_not_h [of c] by auto
  then show ?thesis using True
    by (simp add: NormalizeID_def FindStringSubmatch_def find_id_re ms_id_re_0
        ms_digits_to_end del: ms.simps cat.simps upt_Suc)
next
  case False
  then show ?thesis
    by (simp add: NormalizeID_def FindStringSubmatch_def find_id_re ms_id_re_0
        ms_digits_to_end del: ms.simps cat.simps upt_Suc)
qed

lemma NormalizeID_match: assumes "id_grammar x p d" shows "NormalizeID x = d"
proof (cases "p = []")
  case True
  then have x: "x = d" "d \<noteq> []" "list_all digit d" using assms by (auto simp: id_grammar_def)
  then obtain c cs where d: "d = c # cs" by (cases d) auto
  then have "digit c" using x by simp
  then have "map to_lower (take 6 x) \<noteq> ''heyzo-''"
    using digit_not_h [of c] x d by auto
  then show ?thesis using x by (simp add: NormalizeID_eq)
next
  case False
  then have p: "map to_lower p = ''heyzo-''" and x: "x = p @ d" "d \<noteq> []" "list_all digit d"
    using assms by (auto simp: id_grammar_def)
  from p have "length (map to_lower p) = 6" by simp
  then have len: "length p = 6" by simp
  then show ?thesis using p x by (simp add: NormalizeID_eq)
qed

lemma NormalizeID_no_match:
  assumes "\<forall>p d. \<not> id_grammar x p d" shows "NormalizeID x = []"
proof -
  have a: "\<not> (map to_lower (take 6 x) = ''heyzo-'' \<and> 6 < length x \<and> list_all digit (drop 6 x))"
  proof
    assume h: "map to_lower (take 6 x) = ''heyzo-'' \<and> 6 < length x \<and> list_all digit (drop 6 x)"
    then have "id_grammar x (take 6 x) (drop 6 x)" by (simp add: id_grammar_def)
    then show False using assms by blast
  qed
  have b: "\<not> (x \<noteq> [] \<and> list_all digit x)"
  proof
    assume "x \<noteq> [] \<and> list_all digit x"
    then have "id_grammar x [] x" by (simp add: id_grammar_def)
    then show False using assms by blast
  qed
  show ?thesis using a b by (simp only: NormalizeID_eq if_False)
qed

lemma NormalizeID_digits: "NormalizeID x = [] \<or> (NormalizeID x \<noteq> [] \<and> list_all digit (NormalizeID x))"
  by (auto simp: NormalizeID_eq)

lemma NormalizeID_example: "NormalizeID ''heyzo-1234'' = ''1234''"
  by code_simp

section \<open>Loops over the matched nodes\<close>

lemma fold_invariant:
  assumes "P s" and "\<And>x s. P s \<Longrightarrow> P (f x s)"
  shows "P (fold f xs s)"
  using assms(1) by (induction xs arbitrary: s) (auto intro: assms(2))

lemma fold_panic_invariant:
  assumes "fold_panic f xs s = Some s'" and "P s"
    and "\<And>x s s'. P s \<Longrightarrow> f x s = Some s' \<Longrightarrow> P s'"
  shows "P s'"
  using assms(1,2)
proof (induction xs arbitrary: s)
  case Nil
  then show ?case by simp
next
  case (Cons x xs)
  then show ?case by (auto split: option.splits intro: assms(3))
qed





section \<open>What each callback of the movie record leaves alone\<close>

lemma onJSON_thumb: "thumb_is_cover info \<Longrightarrow> thumb_is_cover (onJSON L page text info)"
  by (simp add: thumb_is_cover_def onJSON_def Let_def split: option.splits)

lemma onTitle_thumb: "thumb_is_cover info \<Longrightarrow> onTitle text info = Some info' \<Longrightarrow> thumb_is_cover info'"
  by (auto simp: thumb_is_cover_def onTitle_def split: option.splits if_splits)

lemma onSummary_thumb: "thumb_is_cover info \<Longrightarrow> thumb_is_cover (onSummary text info)"
  by (simp add: thumb_is_cover_def onSummary_def)

lemma onCover_thumb: "thumb_is_cover info \<Longrightarrow> thumb_is_cover (onCover page content info)"
  by (simp add: thumb_is_cover_def onCover_def Let_def)

lemma onFields_thumb: "thumb_is_cover info \<Longrightarrow> thumb_is_cover (onFields L e info)"
  by (simp add: thumb_is_cover_def onFields_def)

lemma onTags_thumb: "thumb_is_cover info \<Longrightarrow> thumb_is_cover (onTags l info)"
  by (simp add: thumb_is_cover_def onTags_def)

lemma onScript_thumb: "thumb_is_cover info \<Longrightarrow> thumb_is_cover (onScript L page text info)"
  by (simp add: thumb_is_cover_def onScript_def Let_def split: option.splits)

lemma onResponse_thumb: "thumb_is_cover info \<Longrightarrow> thumb_is_cover (onResponse L r info)"
  by (simp add: thumb_is_cover_def onResponse_def Let_def split: sum.splits)

lemma onPlayer_thumb:
  "thumb_is_cover (fst st) \<Longrightarrow> thumb_is_cover (fst (onPlayer L src page text st))"
  by (cases st) (simp add: onPlayer_def Let_def onResponse_thumb split: option.splits)

lemma onImages_thumb: "thumb_is_cover info \<Longrightarrow> thumb_is_cover (onImages page text info)"
  unfolding onImages_def by (rule fold_invariant) (simp_all add: thumb_is_cover_def)

lemma run_movie_callbacks_thumb:
  assumes "run_movie_callbacks L src page info = Some (info', visited)" and "thumb_is_cover info"
  shows "thumb_is_cover info'"
proof -
  let ?j = "fold (onJSON L page) (ld_json_scripts page) info"
  have j: "thumb_is_cover ?j"
    by (rule fold_invariant) (simp_all add: assms(2) onJSON_thumb)
  from assms(1) obtain t where t: "fold_panic onTitle (movie_h1 page) ?j = Some t"
    by (auto simp: run_movie_callbacks_def Let_def split: option.splits)
  have 1: "thumb_is_cover t"
    by (rule fold_panic_invariant [where P = thumb_is_cover, OF t j]) (rule onTitle_thumb)
  let ?s = "fold onSummary (memo_p page) t"
  have 2: "thumb_is_cover ?s" by (rule fold_invariant) (simp_all add: 1 onSummary_thumb)
  let ?c = "fold (onCover page) (og_image_content page) ?s"
  have 3: "thumb_is_cover ?c" by (rule fold_invariant) (simp_all add: 2 onCover_thumb)
  let ?f = "fold (onFields L) (movieInfo_rows page) ?c"
  have 4: "thumb_is_cover ?f" by (rule fold_invariant) (simp_all add: 3 onFields_thumb)
  let ?g = "fold onTags (tag_keyword_lists page) ?f"
  have 5: "thumb_is_cover ?g" by (rule fold_invariant) (simp_all add: 4 onTags_thumb)
  let ?v = "fold (onScript L page) (javascript_scripts page) ?g"
  have 6: "thumb_is_cover ?v" by (rule fold_invariant) (simp_all add: 5 onScript_thumb)
  let ?p = "fold (onPlayer L src page) (playerContainer_scripts page) (?v, [])"
  have 7: "thumb_is_cover (fst ?p)"
    by (rule fold_invariant [where P = "\<lambda>st. thumb_is_cover (fst st)"]) (simp_all add: 6 onPlayer_thumb)
  let ?i = "fold (onImages page) (sample_images_scripts page) (fst ?p)"
  have 8: "thumb_is_cover ?i" by (rule fold_invariant) (simp_all add: 7 onImages_thumb)
  have "info' = ?i" using assms(1) t by (simp add: run_movie_callbacks_def Let_def)
  then show ?thesis using 8 by simp
qed






























lemma onPlayer_cases:
  "onPlayer L src page text (info, visited) = (info, visited) \<or>
   (\<exists>link. onPlayer L src page text (info, visited) =
      ((case visit_manifest src link of None \<Rightarrow> info | Some r \<Rightarrow> onResponse L r info),
       visited @ [link]))"
  by (auto simp: onPlayer_def Let_def split: option.splits)



section \<open>The callbacks of the actor record\<close>






section \<open>The concrete environment, evaluated\<close>






lemma demo_player:
  "onPlayer demo_lib demo_source demo_movie_page demo_player_script (demo_seed, [])
     = (demo_seed\<lparr>PreviewVideoURL := ''https://www.heyzo.com/contents/7/8/foo'',
                    PreviewVideoHLSURL := demo_link\<rparr>, [] @ [demo_link])"
  by code_simp

section \<open>The claims\<close>

subsection \<open>C1: which extractor wins\<close>




subsection \<open>C2: a failed primary fetch\<close>

text \<open>
  C2 as stated fails: with a document source that refuses the connection, both
  \<open>GetMovieInfoByURL\<close> and \<open>GetActorInfoByURL\<close> return the error together with the record
  that holds the seeded defaults, not with a nil record.
\<close>

theorem fetch_error_returns_record:
  "GetMovieInfoByURL demo_lib offline_source demo_movie_url
     = Return (Some demo_seed, Some ''connection refused'') \<and>
   GetMovieInfoByURL demo_lib offline_source demo_movie_url
     \<noteq> Return (None, Some ''connection refused'') \<and>
   GetActorInfoByURL demo_lib offline_actor_visit demo_actor_url
     = Return (Some demo_actor_seed, Some ''connection refused'') \<and>
   GetActorInfoByURL demo_lib offline_actor_visit demo_actor_url
     \<noteq> Return (None, Some ''connection refused'')"
proof -
  have "GetMovieInfoByURL demo_lib offline_source demo_movie_url
     = Return (Some demo_seed, Some ''connection refused'')" by code_simp
  moreover have "GetActorInfoByURL demo_lib offline_actor_visit demo_actor_url
     = Return (Some demo_actor_seed, Some ''connection refused'')" by code_simp
  ultimately show ?thesis by simp
qed

text \<open>
  C2 (as amended). If the URL parses and the primary document fetch fails, record assembly
  returns that fetch error unchanged and, with it, the record as it was seeded before the
  fetch: no callback has run.
\<close>

theorem fetch_error_with_seeded_record:
  "(ParseIDFromURL L rawURL = Inr ident \<longrightarrow> visit_page src rawURL = Inl err \<longrightarrow>
      GetMovieInfoByURL L src rawURL = Return (Some (new_MovieInfo ident rawURL), Some err)) \<and>
   (url_Parse L u = Inr homepage \<longrightarrow> visit (url_String homepage) = Inl err \<longrightarrow>
      GetActorInfoByURL L visit u = Return (Some (new_ActorInfo homepage), Some err))"
  by (simp add: GetMovieInfoByURL_def GetActorInfoByURL_def Let_def new_MovieInfo_def
      new_ActorInfo_def)

text \<open>The amended C2 on the concrete URLs with the source that refuses the connection.\<close>

theorem fetch_error_with_seeded_record_witness:
  "ParseIDFromURL demo_lib demo_movie_url = Inr ''1234'' \<and>
   visit_page offline_source demo_movie_url = Inl ''connection refused'' \<and>
   GetMovieInfoByURL demo_lib offline_source demo_movie_url
     = Return (Some (new_MovieInfo ''1234'' demo_movie_url), Some ''connection refused'') \<and>
   url_Parse demo_lib demo_actor_url
     = Inr \<lparr>url_Path = ''/zh/model/123.html'', url_String = demo_actor_url\<rparr> \<and>
   offline_actor_visit (url_String \<lparr>url_Path = ''/zh/model/123.html'', url_String = demo_actor_url\<rparr>)
     = Inl ''connection refused'' \<and>
   GetActorInfoByURL demo_lib offline_actor_visit demo_actor_url
     = Return (Some (new_ActorInfo \<lparr>url_Path = ''/zh/model/123.html'', url_String = demo_actor_url\<rparr>),
               Some ''connection refused'')"
proof -
  have 1: "ParseIDFromURL demo_lib demo_movie_url = Inr ''1234''" by code_simp
  have 2: "visit_page offline_source demo_movie_url = Inl ''connection refused''"
    by (simp add: offline_source_def)
  have 3: "url_Parse demo_lib demo_actor_url
     = Inr \<lparr>url_Path = ''/zh/model/123.html'', url_String = demo_actor_url\<rparr>" by code_simp
  have 4: "offline_actor_visit (url_String \<lparr>url_Path = ''/zh/model/123.html'', url_String = demo_actor_url\<rparr>)
     = Inl ''connection refused''" by (simp add: offline_actor_visit_def)
  from fetch_error_with_seeded_record [of demo_lib demo_movie_url "''1234''" offline_source
      "''connection refused''" demo_actor_url
      "\<lparr>url_Path = ''/zh/model/123.html'', url_String = demo_actor_url\<rparr>" offline_actor_visit]
    1 2 3 4
  show ?thesis by blast
qed

subsection \<open>C3: the provider name of a search result\<close>

text \<open>
  C3 fails on the code. For the listing with the title \<open>1 - Jane Doe\<close> the search returns a
  result whose provider-name field is the display name \<open>Jane Doe\<close>, not the constant
  \<open>xslist\<close>.
\<close>

theorem search_provider_is_display_name:
  "SearchActor demo_lib demo_search_visit ''jane'' =
     Return ([\<lparr>result_ID = ''123'', result_Name = ''Jane Doe'',
               result_Images = [''https://xslist.org/img/123.jpg''],
               result_Provider = ''Jane Doe'',
               result_Homepage = ''https://xslist.org/zh/model/123.html''\<rparr>], None) \<and>
   ''Jane Doe'' \<noteq> name"
proof -
  have "SearchActor demo_lib demo_search_visit ''jane'' =
     Return ([\<lparr>result_ID = ''123'', result_Name = ''Jane Doe'',
               result_Images = [''https://xslist.org/img/123.jpg''],
               result_Provider = ''Jane Doe'',
               result_Homepage = ''https://xslist.org/zh/model/123.html''\<rparr>], None)"
    by code_simp
  then show ?thesis by (simp add: name_def)
qed

subsection \<open>C4: the sample URL from the manifest\<close>

text \<open>
  C4. Let the manifest of the response parse to the media URI \<open>uri\<close>. If \<open>uri\<close> contains a
  path \<open>/sample/<digits>/<digits>/ts.<fragment>.m3u8\<close>, the preview-video URL becomes the
  sample-URL template filled with the two digit groups and the fragment of such a path in
  \<open>uri\<close>; if \<open>uri\<close> contains no such path, the preview-video URL keeps its value. For the URI
  \<open>/sample/7/8/ts.foo.m3u8\<close> the groups are 7, 8 and foo.
\<close>

theorem sample_url_from_manifest:
  "ParseMediaURI L (resp_Body r) = Inr uri \<Longrightarrow>
     ((\<exists>a b f. sample_groups a b f \<and> sublist (sample_path a b f) uri) \<longrightarrow>
        (\<exists>a b f. sample_groups a b f \<and> sublist (sample_path a b f) uri \<and>
           PreviewVideoURL (onResponse L r info) =
             ''https://www.heyzo.com/contents/'' @ a @ ''/'' @ b @ ''/'' @ f)) \<and>
     (\<not> (\<exists>a b f. sample_groups a b f \<and> sublist (sample_path a b f) uri) \<longrightarrow>
        PreviewVideoURL (onResponse L r info) = PreviewVideoURL info) \<and>
     (uri = ''/sample/7/8/ts.foo.m3u8'' \<longrightarrow>
        PreviewVideoURL (onResponse L r info) = ''https://www.heyzo.com/contents/7/8/foo'')"
proof -
  assume p: "ParseMediaURI L (resp_Body r) = Inr uri"
  have ex: "FindStringSubmatch sample_re ''/sample/7/8/ts.foo.m3u8'' =
            [''/sample/7/8/ts.foo.m3u8'', ''7'', ''8'', ''foo'']"
    by code_simp
  have 3: "uri = ''/sample/7/8/ts.foo.m3u8'' \<longrightarrow>
        PreviewVideoURL (onResponse L r info) = ''https://www.heyzo.com/contents/7/8/foo''"
    using p ex by (auto simp: onResponse_def Let_def sampleURL_def)
  from Find_sample_cases [of uri] have 12:
    "((\<exists>a b f. sample_groups a b f \<and> sublist (sample_path a b f) uri) \<longrightarrow>
        (\<exists>a b f. sample_groups a b f \<and> sublist (sample_path a b f) uri \<and>
           PreviewVideoURL (onResponse L r info) =
             ''https://www.heyzo.com/contents/'' @ a @ ''/'' @ b @ ''/'' @ f)) \<and>
     (\<not> (\<exists>a b f. sample_groups a b f \<and> sublist (sample_path a b f) uri) \<longrightarrow>
        PreviewVideoURL (onResponse L r info) = PreviewVideoURL info)"
  proof (elim disjE conjE exE)
    assume "FindStringSubmatch sample_re uri = []"
      and n: "\<not> (\<exists>a b f. sample_groups a b f \<and> sublist (sample_path a b f) uri)"
    then have "PreviewVideoURL (onResponse L r info) = PreviewVideoURL info"
      using p by (simp add: onResponse_def Let_def)
    then show ?thesis using n by blast
  next
    fix a b f
    assume m: "FindStringSubmatch sample_re uri = [sample_path a b f, a, b, f]"
      and g: "sample_groups a b f" "sublist (sample_path a b f) uri"
    have "PreviewVideoURL (onResponse L r info) =
             ''https://www.heyzo.com/contents/'' @ a @ ''/'' @ b @ ''/'' @ f"
      using p m by (simp add: onResponse_def Let_def sampleURL_def)
    then show ?thesis using g by blast
  qed
  show ?thesis using 12 3 by blast
qed

text \<open>C4 on the concrete response, and on a response whose media URI has another shape.\<close>

theorem sample_url_from_manifest_witness:
  "ParseMediaURI demo_lib (resp_Body demo_response) = Inr ''/sample/7/8/ts.foo.m3u8'' \<and>
   sample_groups ''7'' ''8'' ''foo'' \<and>
   sublist (sample_path ''7'' ''8'' ''foo'') ''/sample/7/8/ts.foo.m3u8'' \<and>
   PreviewVideoURL (onResponse demo_lib demo_response demo_seed)
     = ''https://www.heyzo.com/contents/7/8/foo'' \<and>
   ParseMediaURI demo_lib (resp_Body other_response) = Inr ''/video/low.m3u8'' \<and>
   \<not> (\<exists>a b f. sample_groups a b f \<and> sublist (sample_path a b f) ''/video/low.m3u8'') \<and>
   PreviewVideoURL (onResponse demo_lib other_response demo_seed) = PreviewVideoURL demo_seed"
proof -
  have p1: "ParseMediaURI demo_lib (resp_Body demo_response) = Inr ''/sample/7/8/ts.foo.m3u8''"
    by code_simp
  have p2: "ParseMediaURI demo_lib (resp_Body other_response) = Inr ''/video/low.m3u8''"
    by code_simp
  have g: "sample_groups ''7'' ''8'' ''foo''" by code_simp
  have s: "sublist (sample_path ''7'' ''8'' ''foo'') ''/sample/7/8/ts.foo.m3u8''"
    by (simp add: sample_path_def)
  have "FindStringSubmatch sample_re ''/video/low.m3u8'' = []" by code_simp
  then have n: "\<not> (\<exists>a b f. sample_groups a b f \<and> sublist (sample_path a b f) ''/video/low.m3u8'')"
    using Find_sample_cases [of "''/video/low.m3u8''"] by auto
  from sample_url_from_manifest [OF p1, of demo_seed]
  have 1: "PreviewVideoURL (onResponse demo_lib demo_response demo_seed)
     = ''https://www.heyzo.com/contents/7/8/foo''" by blast
  from sample_url_from_manifest [OF p2, of demo_seed] n
  have 2: "PreviewVideoURL (onResponse demo_lib other_response demo_seed) = PreviewVideoURL demo_seed"
    by blast
  show ?thesis using p1 p2 g s n 1 2 by blast
qed

subsection \<open>C5: the manifest URL\<close>

text \<open>
  C5. The response callback of the nested collector always leaves the URL of the request of
  the response in the HLS field, whatever the parse of the body and the match of the media
  URI give. Hence, whenever the preview-video decoder asks for a manifest at \<open>link\<close> and the
  document source answers with the response \<open>r\<close>, the HLS field of the record afterwards is
  the URL of the request of \<open>r\<close>.
\<close>

theorem hls_url_recorded:
  "PreviewVideoHLSURL (onResponse L r info) = resp_URL r \<and>
   (onPlayer L src page text (info, visited) = (info', visited @ [link]) \<longrightarrow>
    visit_manifest src link = Some r \<longrightarrow> PreviewVideoHLSURL info' = resp_URL r)"
proof -
  have a: "PreviewVideoHLSURL (onResponse L r info) = resp_URL r" for info :: "('a, 'b) MovieInfo"
    by (simp add: onResponse_def Let_def split: sum.splits)
  have "PreviewVideoHLSURL info' = resp_URL r"
    if "onPlayer L src page text (info, visited) = (info', visited @ [link])"
      and "visit_manifest src link = Some r"
    using onPlayer_cases [of L src page "text" info visited] that a by auto
  then show ?thesis using a by blast
qed

text \<open>C5 on the concrete script and response.\<close>

theorem hls_url_recorded_witness:
  "onPlayer demo_lib demo_source demo_movie_page demo_player_script (demo_seed, [])
     = (demo_seed\<lparr>PreviewVideoURL := ''https://www.heyzo.com/contents/7/8/foo'',
                    PreviewVideoHLSURL := demo_link\<rparr>, [] @ [demo_link]) \<and>
   visit_manifest demo_source demo_link = Some demo_response \<and>
   PreviewVideoHLSURL (demo_seed\<lparr>PreviewVideoURL := ''https://www.heyzo.com/contents/7/8/foo'',
                    PreviewVideoHLSURL := demo_link\<rparr>) = resp_URL demo_response"
proof -
  have v: "visit_manifest demo_source demo_link = Some demo_response"
    by (simp add: demo_source_def)
  from hls_url_recorded [of demo_lib demo_response demo_seed demo_source demo_movie_page
      demo_player_script "[]" _ demo_link] demo_player v
  show ?thesis by blast
qed

subsection \<open>C6: a failed nested fetch\<close>



subsection \<open>C7: the identifier normalizer\<close>

text \<open>
  C7. If the input is an optional prefix \<open>heyzo-\<close> in any letter case followed by a non-empty
  string of digits and nothing else, \<open>NormalizeID\<close> returns the digits; if the input has no
  such reading, it returns the empty string. \<open>NormalizeID\<close> is a total function: it has no
  other outcome. The identifier \<open>heyzo-1234\<close> normalizes to \<open>1234\<close>.
\<close>

theorem NormalizeID_grammar:
  "(id_grammar x p d \<longrightarrow> NormalizeID x = d) \<and>
   ((\<forall>p d. \<not> id_grammar x p d) \<longrightarrow> NormalizeID x = []) \<and>
   NormalizeID ''heyzo-1234'' = ''1234''"
  using NormalizeID_match [of x p d] NormalizeID_no_match [of x] NormalizeID_example by blast

text \<open>C7 on an identifier of the grammar and on a malformed one.\<close>

theorem NormalizeID_grammar_witness:
  "id_grammar ''HEYZO-0042'' ''HEYZO-'' ''0042'' \<and> NormalizeID ''HEYZO-0042'' = ''0042'' \<and>
   (\<forall>p d. \<not> id_grammar ''heyzo-12a'' p d) \<and> NormalizeID ''heyzo-12a'' = []"
proof -
  have g: "id_grammar ''HEYZO-0042'' ''HEYZO-'' ''0042''"
    by code_simp
  have n: "\<forall>p d. \<not> id_grammar ''heyzo-12a'' p d"
  proof (intro allI notI)
    fix p d assume a: "id_grammar ''heyzo-12a'' p d"
    then have d: "d \<noteq> []" "list_all digit d" and x: "''heyzo-12a'' = p @ d"
      by (simp_all add: id_grammar_def)
    from x d(1) have "last d = CHR ''a''" by (metis last_appendR last.simps list.distinct(1) last_ConsR)
    moreover have "digit (last d)" using d by (simp add: list_all_iff)
    ultimately show False by (simp add: digit_def byte_def)
  qed
  from NormalizeID_grammar [of "''HEYZO-0042''" "''HEYZO-''" "''0042''"] g
  have 1: "NormalizeID ''HEYZO-0042'' = ''0042''" by blast
  from NormalizeID_grammar [of "''heyzo-12a''"] n
  have 2: "NormalizeID ''heyzo-12a'' = []" by blast
  show ?thesis using g n 1 2 by blast
qed

subsection \<open>C8: normalization is idempotent\<close>

text \<open>
  C8. Normalizing a normalized identifier gives it back, and equal inputs give equal
  outputs.
\<close>

theorem NormalizeID_idempotent:
  "NormalizeID (NormalizeID x) = NormalizeID x \<and> (x = y \<longrightarrow> NormalizeID x = NormalizeID y)"
proof -
  have "NormalizeID (NormalizeID x) = NormalizeID x"
  proof (cases "NormalizeID x = []")
    case True
    then show ?thesis by (simp add: NormalizeID_eq)
  next
    case False
    then have "id_grammar (NormalizeID x) [] (NormalizeID x)"
      using NormalizeID_digits [of x] by (simp add: id_grammar_def)
    then show ?thesis by (rule NormalizeID_match)
  qed
  then show ?thesis by simp
qed

text \<open>C8 on the identifier \<open>heyzo-1234\<close>.\<close>

theorem NormalizeID_idempotent_witness:
  "NormalizeID (NormalizeID ''heyzo-1234'') = NormalizeID ''heyzo-1234'' \<and>
   ''heyzo-1234'' = ''heyzo-1234'' \<and> NormalizeID ''heyzo-1234'' = NormalizeID ''heyzo-1234''"
  using NormalizeID_idempotent [of "''heyzo-1234''" "''heyzo-1234''"] by simp

subsection \<open>C9: the preview-video decoder without its tokens\<close>

text \<open>
  C9. If the script text holds no movie-id token, no site-id token or no three-part stream
  template, the preview-video decoder leaves the record and the list of the nested fetches
  as they are: it changes no field, asks for no document and has no other outcome.
\<close>

theorem player_decoder_noop:
  "\<not> occurs movieId_re text \<or> \<not> occurs siteID_re text \<or> \<not> occurs stream_re text
   \<Longrightarrow> onPlayer L src page text (info, visited) = (info, visited)"
  by (auto simp: onPlayer_def Let_def occurs_iff anchor_free_res)

text \<open>C9 on a script that holds the movie-id token only.\<close>

theorem player_decoder_noop_witness:
  "\<not> occurs siteID_re (''var movieId='' @ squote @ ''55'' @ squote @ '';'') \<and>
   onPlayer demo_lib demo_source demo_movie_page (''var movieId='' @ squote @ ''55'' @ squote @ '';'')
     (demo_seed, []) = (demo_seed, [])"
proof -
  have "FindStringSubmatch siteID_re (''var movieId='' @ squote @ ''55'' @ squote @ '';'') = []"
    by code_simp
  then have n: "\<not> occurs siteID_re (''var movieId='' @ squote @ ''55'' @ squote @ '';'')"
    by (simp add: occurs_iff anchor_free_res)
  from player_decoder_noop [of "''var movieId='' @ squote @ ''55'' @ squote @ '';''" demo_lib
      demo_source demo_movie_page demo_seed "[]"] n
  show ?thesis by blast
qed

subsection \<open>C10: thumbnail and cover\<close>

text \<open>
  C10. In every record that \<open>GetMovieInfoByURL\<close> returns, the thumbnail URL equals the cover
  URL.
\<close>

theorem thumb_equals_cover:
  "GetMovieInfoByURL L src rawURL = Return (Some info, e) \<Longrightarrow> ThumbURL info = CoverURL info"
proof -
  assume r: "GetMovieInfoByURL L src rawURL = Return (Some info, e)"
  have seed: "\<And>i u. thumb_is_cover (new_MovieInfo i u :: ('a, 'b) MovieInfo)"
    by (simp add: thumb_is_cover_def new_MovieInfo_def)
  from r have "thumb_is_cover info"
    by (auto simp: GetMovieInfoByURL_def Let_def seed split: sum.splits option.splits
        dest: run_movie_callbacks_thumb [OF _ seed])
  then show ?thesis by (simp add: thumb_is_cover_def)
qed

text \<open>C10 on the concrete movie page.\<close>

theorem thumb_equals_cover_witness:
  "GetMovieInfoByURL demo_lib demo_source demo_movie_url = Return (Some demo_movie_record, None) \<and>
   ThumbURL demo_movie_record = CoverURL demo_movie_record"
proof -
  have h: "GetMovieInfoByURL demo_lib demo_source demo_movie_url
             = Return (Some demo_movie_record, None)"
    by code_simp
  from thumb_equals_cover [OF h] h show ?thesis by simp
qed

end
